theory Spec2Isabelle
  imports Complex_Main
begin

section \<open>The strategy engine of strategy_engine.py\<close>

text \<open>
  Python integers are \<open>int\<close>, exceptions are values of the type \<open>error\<close>, and a Python
  float is the real number it denotes, every arithmetic operation rounding its exact result
  to the nearest double as the hardware does. Infinities and NaN values held in the inputs,
  and results beyond the largest double, are outside the model; the NaN of a rolling mean
  is \<open>None\<close>.
\<close>

datatype error = ZeroDivisionError | ValueError | TypeError | AttributeError

subsection \<open>Float arithmetic\<close>

text \<open>
  A double has a significand of 53 bits and an exponent of at least \<open>-1022\<close>. For
  \<open>x > 0\<close>, \<open>exponent x\<close> is the \<open>e\<close> with \<open>2^e \<le> x < 2^(e+1)\<close>, found by halving or
  doubling and held at \<open>-1022\<close> for the subnormal numbers; \<open>fl x\<close> is the multiple of
  \<open>2^(e - 52)\<close> nearest to \<open>x\<close>, the even one of two that are equally near.
\<close>

definition pow2 :: "int \<Rightarrow> real" where
  "pow2 k = (if 0 \<le> k then 2 ^ nat k else 1 / 2 ^ nat (- k))"

fun scale_down :: "nat \<Rightarrow> real \<Rightarrow> int \<Rightarrow> int" where
  "scale_down 0 x e = e"
| "scale_down (Suc n) x e = (if 2 \<le> x then scale_down n (x / 2) (e + 1) else e)"

fun scale_up :: "nat \<Rightarrow> real \<Rightarrow> int \<Rightarrow> int" where
  "scale_up 0 x e = e"
| "scale_up (Suc n) x e = (if x < 1 then scale_up n (2 * x) (e - 1) else e)"

definition exponent :: "real \<Rightarrow> int" where
  "exponent x = (if 1 \<le> x then scale_down 1024 x 0 else scale_up 1022 x 0)"

definition round_even :: "real \<Rightarrow> int" where
  "round_even x =
     (let f = \<lfloor>x\<rfloor>; d = x - of_int f in
      if d < 1 / 2 then f
      else if 1 / 2 < d then f + 1
      else if even f then f else f + 1)"

definition fl :: "real \<Rightarrow> real" where
  "fl x =
     (if x = 0 then 0
      else (let q = pow2 (exponent \<bar>x\<bar> - 52) in of_int (round_even (x / q)) * q))"

text \<open>Python's \<open>a * b\<close>, \<open>a - b\<close> and \<open>a / b\<close> on floats; a zero divisor raises.\<close>

definition fmul :: "real \<Rightarrow> real \<Rightarrow> real" where
  "fmul a b = fl (a * b)"

definition fsub :: "real \<Rightarrow> real \<Rightarrow> real" where
  "fsub a b = fl (a - b)"

definition fdiv :: "real \<Rightarrow> real \<Rightarrow> real" where
  "fdiv a b = fl (a / b)"

definition truediv :: "real \<Rightarrow> real \<Rightarrow> error + real" where
  "truediv a b = (if b = 0 then Inl ZeroDivisionError else Inr (fdiv a b))"

definition should_stop_loss :: "real \<Rightarrow> real \<Rightarrow> string \<Rightarrow> real \<Rightarrow> error + bool" where
  "should_stop_loss entry_price current_price side sl_pct =
     (if sl_pct \<le> 0 then Inr False
      else case (if side = ''long'' then truediv current_price entry_price
                 else truediv entry_price current_price) of
             Inl e \<Rightarrow> Inl e
           | Inr q \<Rightarrow> Inr (fsub q 1 \<le> - sl_pct))"

subsection \<open>The data\<close>

record StrategyParams =
  ma_fast :: int
  ma_slow :: int
  buy_pct :: real
  tp1_pct :: real
  tp2_pct :: real
  sl_pct :: real
  tp1_sell_prop :: real

text \<open>
  The defaults of the dataclass \<open>StrategyParams\<close>; a float literal denotes the double
  nearest to it.
\<close>

definition default_params :: StrategyParams where
  "default_params = \<lparr>ma_fast = 10, ma_slow = 20, buy_pct = fl 0.15, tp1_pct = fl 0.08,
     tp2_pct = fl 0.14, sl_pct = fl 0.18, tp1_sell_prop = fl 0.9\<rparr>"

text \<open>
  The dataclass \<open>Entry\<close>; its fields \<open>price\<close> and \<open>size\<close> are \<open>price_e\<close> and \<open>size_e\<close>
  here, apart from the local \<open>price\<close> of \<open>process_bar\<close> and the \<open>size\<close> of HOL.
\<close>

record Entry =
  price_e :: real
  size_e :: real
  tp1_done :: bool

text \<open>
  The dataclass \<open>StrategyState\<close>, over what its two lists hold. \<open>process_bar\<close> assigns to
  the fields of an \<open>Entry\<close> object, and a list may hold an object more than once or share
  it with the other list: there the lists hold addresses, and a store gives the object at
  each address. Equality and serialization read the fields only: there the lists hold the
  entries themselves.
\<close>

record 'e StrategyState =
  params :: StrategyParams
  long_entries :: "'e list"
  short_entries :: "'e list"
  completed_long_trades :: int
  completed_short_trades :: int

type_synonym store = "nat \<Rightarrow> Entry"

text \<open>The address of a new object: none that the lists hold.\<close>

definition fresh :: "nat StrategyState \<Rightarrow> nat" where
  "fresh s = Suc (fold max (long_entries s @ short_entries s) 0)"

text \<open>
  An action is the dictionary the code appends to \<open>actions\<close>: the keys op, side, size and
  price are always present, notional only on the two open actions.
\<close>

record action =
  act_op :: string
  act_side :: string
  act_size :: real
  act_price :: real
  act_notional :: "real option"

subsection \<open>Indicators\<close>

text \<open>
  The rolling means are computed by the pandas library, whose accumulation and rounding
  are no part of this repository: \<open>rolling close w i\<close> stands for the float
  \<open>close.rolling(w).mean().iloc[i]\<close>, \<open>None\<close> when it is NaN, and is a parameter of the
  model. A comparison with NaN is false. The library rejects a negative window with
  ValueError when \<open>rolling\<close> is called; \<open>process_bar\<close> below carries that check.
\<close>

type_synonym rolling_means = "real list \<Rightarrow> int \<Rightarrow> nat \<Rightarrow> real option"

definition lt_nan :: "real \<Rightarrow> real option \<Rightarrow> bool" where
  "lt_nan x m = (case m of None \<Rightarrow> False | Some y \<Rightarrow> x < y)"

definition gt_nan :: "real \<Rightarrow> real option \<Rightarrow> bool" where
  "gt_nan x m = (case m of None \<Rightarrow> False | Some y \<Rightarrow> x > y)"

definition long_signal :: "rolling_means \<Rightarrow> StrategyParams \<Rightarrow> real list \<Rightarrow> bool" where
  "long_signal rolling p close =
     (let idx = length close - 1;
          price = close ! idx;
          prev_price = close ! (idx - 1);
          last_ma_fast = rolling close (ma_fast p) idx;
          prev_ma_fast = rolling close (ma_fast p) (idx - 1);
          last_ma_slow = rolling close (ma_slow p) idx;
          prev_ma_slow = rolling close (ma_slow p) (idx - 1);
          last_ma120 = rolling close 120 idx
      in lt_nan prev_price prev_ma_fast
         \<and> gt_nan price last_ma_fast
         \<and> lt_nan prev_price prev_ma_slow
         \<and> gt_nan price last_ma_slow
         \<and> gt_nan price last_ma120)"

definition short_signal :: "rolling_means \<Rightarrow> StrategyParams \<Rightarrow> real list \<Rightarrow> bool" where
  "short_signal rolling p close =
     (let idx = length close - 1;
          price = close ! idx;
          prev_price = close ! (idx - 1);
          last_ma_fast = rolling close (ma_fast p) idx;
          prev_ma_fast = rolling close (ma_fast p) (idx - 1);
          last_ma_slow = rolling close (ma_slow p) idx;
          prev_ma_slow = rolling close (ma_slow p) (idx - 1);
          last_ma120 = rolling close 120 idx
      in gt_nan prev_price prev_ma_fast
         \<and> lt_nan price last_ma_fast
         \<and> gt_nan prev_price prev_ma_slow
         \<and> lt_nan price last_ma_slow
         \<and> lt_nan price last_ma120)"

subsection \<open>The management scans\<close>

text \<open>\<open>xs.pop(i)\<close> for an index in range.\<close>

definition pop :: "'a list \<Rightarrow> nat \<Rightarrow> 'a list" where
  "pop xs i = take i xs @ drop (Suc i) xs"

text \<open>
  The loop \<open>for i in range(len(self.long_entries) - 1, -1, -1)\<close>, as a recursion on the
  number of entries still to visit: \<open>scan_long h s price (Suc i)\<close> visits index \<open>i\<close> and
  then the indices below it. \<open>None\<close> means that the loop ran to its end without
  returning. A tier-1 close writes to the object, in the store; the exits pop the list.
\<close>

primrec scan_long ::
  "store \<Rightarrow> nat StrategyState \<Rightarrow> real \<Rightarrow> nat
     \<Rightarrow> error + (action list \<times> store \<times> nat StrategyState) option" where
  "scan_long h s price 0 = Inr None"
| "scan_long h s price (Suc i) =
     (let entry = h (long_entries s ! i) in
      case truediv price (price_e entry) of
        Inl e \<Rightarrow> Inl e
      | Inr q \<Rightarrow>
          (let pnl_pct = fsub q 1 in
           if \<not> tp1_done entry \<and> pnl_pct \<ge> tp1_pct (params s) then
             (let sell_size = fmul (size_e entry) (tp1_sell_prop (params s)) in
              Inr (Some ([\<lparr>act_op = ''tp1_long'', act_side = ''sell'', act_size = sell_size,
                           act_price = price, act_notional = None\<rparr>],
                         h(long_entries s ! i :=
                             entry\<lparr>tp1_done := True,
                                   size_e := fsub (size_e entry) sell_size\<rparr>),
                         s)))
           else
             (case should_stop_loss (price_e entry) price ''long'' (sl_pct (params s)) of
                Inl e \<Rightarrow> Inl e
              | Inr stop \<Rightarrow>
                  if stop then
                    Inr (Some ([\<lparr>act_op = ''sl_long'', act_side = ''sell'',
                                 act_size = size_e entry, act_price = price,
                                 act_notional = None\<rparr>],
                               h,
                               s\<lparr>long_entries := pop (long_entries s) i\<rparr>))
                  else if tp1_done entry \<and> pnl_pct \<ge> tp2_pct (params s) then
                    Inr (Some ([\<lparr>act_op = ''tp2_long'', act_side = ''sell'',
                                 act_size = size_e entry, act_price = price,
                                 act_notional = None\<rparr>],
                               h,
                               s\<lparr>long_entries := pop (long_entries s) i,
                                 completed_long_trades := completed_long_trades s + 1\<rparr>))
                  else scan_long h s price i)))"

primrec scan_short ::
  "store \<Rightarrow> nat StrategyState \<Rightarrow> real \<Rightarrow> nat
     \<Rightarrow> error + (action list \<times> store \<times> nat StrategyState) option" where
  "scan_short h s price 0 = Inr None"
| "scan_short h s price (Suc i) =
     (let entry = h (short_entries s ! i) in
      case truediv (price_e entry) price of
        Inl e \<Rightarrow> Inl e
      | Inr q \<Rightarrow>
          (let pnl_pct = fsub q 1 in
           if \<not> tp1_done entry \<and> pnl_pct \<ge> tp1_pct (params s) then
             (let buy_size = fmul (size_e entry) (tp1_sell_prop (params s)) in
              Inr (Some ([\<lparr>act_op = ''tp1_short'', act_side = ''buy'', act_size = buy_size,
                           act_price = price, act_notional = None\<rparr>],
                         h(short_entries s ! i :=
                             entry\<lparr>tp1_done := True,
                                   size_e := fsub (size_e entry) buy_size\<rparr>),
                         s)))
           else
             (case should_stop_loss (price_e entry) price ''short'' (sl_pct (params s)) of
                Inl e \<Rightarrow> Inl e
              | Inr stop \<Rightarrow>
                  if stop then
                    Inr (Some ([\<lparr>act_op = ''sl_short'', act_side = ''buy'',
                                 act_size = size_e entry, act_price = price,
                                 act_notional = None\<rparr>],
                               h,
                               s\<lparr>short_entries := pop (short_entries s) i\<rparr>))
                  else if tp1_done entry \<and> pnl_pct \<ge> tp2_pct (params s) then
                    Inr (Some ([\<lparr>act_op = ''tp2_short'', act_side = ''buy'',
                                 act_size = size_e entry, act_price = price,
                                 act_notional = None\<rparr>],
                               h,
                               s\<lparr>short_entries := pop (short_entries s) i,
                                 completed_short_trades := completed_short_trades s + 1\<rparr>))
                  else scan_short h s price i)))"

text \<open>
  The two loops in sequence: the short entries are visited only when the loop over the
  long entries ends without returning; \<open>return actions\<close> at the end returns the empty
  list.
\<close>

definition manage ::
  "store \<Rightarrow> nat StrategyState \<Rightarrow> real \<Rightarrow> error + (action list \<times> store \<times> nat StrategyState)" where
  "manage h s price =
     (case scan_long h s price (length (long_entries s)) of
        Inl e \<Rightarrow> Inl e
      | Inr (Some r) \<Rightarrow> Inr r
      | Inr None \<Rightarrow>
          (case scan_short h s price (length (short_entries s)) of
             Inl e \<Rightarrow> Inl e
           | Inr (Some r) \<Rightarrow> Inr r
           | Inr None \<Rightarrow> Inr ([], h, s)))"

subsection \<open>process_bar\<close>

text \<open>
  The data frame is a map from column names to columns. The result is the exception
  raised, or the returned list of actions with the store and the state as the call leaves
  them. The two calls \<open>close.rolling(self.params.ma_fast)\<close> and
  \<open>close.rolling(self.params.ma_slow)\<close> come after the test of the length and before the
  test of the price, and raise ValueError on a negative window. When the bullish signal
  holds and the cash does not suffice, control falls through to the bearish test
  (\<open>rest\<close>). A new \<open>Entry\<close> is a new object, at an address that no list holds.
\<close>

definition process_bar ::
  "rolling_means \<Rightarrow> store \<Rightarrow> nat StrategyState \<Rightarrow> (string \<rightharpoonup> real list) \<Rightarrow> real \<Rightarrow> real
     \<Rightarrow> error + (action list \<times> store \<times> nat StrategyState)" where
  "process_bar rolling h s df account_value cash =
     (case df ''close'' of
        None \<Rightarrow> Inr ([], h, s)
      | Some close \<Rightarrow>
          (let max_period = max (max (ma_fast (params s)) (ma_slow (params s))) 120 in
           if int (length close) < max_period + 1 then Inr ([], h, s)
           else if ma_fast (params s) < 0 \<or> ma_slow (params s) < 0 then Inl ValueError
           else
             (let idx = length close - 1;
                  price = close ! idx;
                  rest =
                    (if short_signal rolling (params s) close then
                       (let sell_amount = fmul account_value (buy_pct (params s)) in
                        case truediv sell_amount price of
                          Inl e \<Rightarrow> Inl e
                        | Inr sz \<Rightarrow>
                            Inr ([\<lparr>act_op = ''open_short'', act_side = ''sell'', act_size = sz,
                                   act_price = price, act_notional = Some sell_amount\<rparr>],
                                 h(fresh s := \<lparr>price_e = price, size_e = sz, tp1_done = False\<rparr>),
                                 s\<lparr>short_entries := short_entries s @ [fresh s]\<rparr>))
                     else manage h s price)
              in
              if price \<le> 0 then Inr ([], h, s)
              else if long_signal rolling (params s) close then
                (let buy_amount = fmul account_value (buy_pct (params s)) in
                 if cash \<ge> buy_amount then
                   (case truediv buy_amount price of
                      Inl e \<Rightarrow> Inl e
                    | Inr sz \<Rightarrow>
                        Inr ([\<lparr>act_op = ''open_long'', act_side = ''buy'', act_size = sz,
                               act_price = price, act_notional = Some buy_amount\<rparr>],
                             h(fresh s := \<lparr>price_e = price, size_e = sz, tp1_done = False\<rparr>),
                             s\<lparr>long_entries := long_entries s @ [fresh s]\<rparr>))
                 else rest)
              else rest)))"

subsection \<open>Snapshots\<close>

text \<open>
  A snapshot string is modelled by the JSON value it denotes: \<open>json.dumps\<close> writes the
  value that \<open>json.loads\<close> reads back, and \<open>to_json\<close> and \<open>from_json\<close> are modelled
  between the state and that value, on states whose lists hold the entries themselves.
  An object is the list of its members; a parsed object has each key once.
\<close>

datatype json =
  JNull | JBool bool | JInt int | JFloat real | JStr string
  | JArr "json list" | JObj "(string \<times> json) list"

text \<open>\<open>asdict\<close> of the params and of an entry, with the field names as keys.\<close>

definition params_dict :: "StrategyParams \<Rightarrow> json" where
  "params_dict p = JObj
     [(''ma_fast'', JInt (ma_fast p)), (''ma_slow'', JInt (ma_slow p)),
      (''buy_pct'', JFloat (buy_pct p)), (''tp1_pct'', JFloat (tp1_pct p)),
      (''tp2_pct'', JFloat (tp2_pct p)), (''sl_pct'', JFloat (sl_pct p)),
      (''tp1_sell_prop'', JFloat (tp1_sell_prop p))]"

definition entry_dict :: "Entry \<Rightarrow> json" where
  "entry_dict e = JObj
     [(''price'', JFloat (price_e e)), (''size'', JFloat (size_e e)),
      (''tp1_done'', JBool (tp1_done e))]"

definition to_json :: "Entry StrategyState \<Rightarrow> json" where
  "to_json s = JObj
     [(''params'', params_dict (params s)),
      (''long_entries'', JArr (map entry_dict (long_entries s))),
      (''short_entries'', JArr (map entry_dict (short_entries s))),
      (''completed_long_trades'', JInt (completed_long_trades s)),
      (''completed_short_trades'', JInt (completed_short_trades s))]"

text \<open>\<open>d.get(k, default)\<close> on a dictionary.\<close>

definition get :: "(string \<times> json) list \<Rightarrow> string \<Rightarrow> json \<Rightarrow> json" where
  "get kw k d = (case map_of kw k of None \<Rightarrow> d | Some v \<Rightarrow> v)"

text \<open>
  The constructors store whatever value they are given. The records of this theory are
  typed, so a JSON value is read at the declared type of its field: an integer counts as
  a float too, and a value of any other type has no counterpart (\<open>None\<close>), which
  \<open>from_json\<close> reports as \<open>Restored_untyped\<close>: the code returns a state, but one that
  a typed record cannot hold.
\<close>

definition as_int :: "json \<Rightarrow> int option" where
  "as_int v = (case v of JInt n \<Rightarrow> Some n | _ \<Rightarrow> None)"

definition as_float :: "json \<Rightarrow> real option" where
  "as_float v = (case v of JFloat r \<Rightarrow> Some r | JInt n \<Rightarrow> Some (of_int n) | _ \<Rightarrow> None)"

definition as_bool :: "json \<Rightarrow> bool option" where
  "as_bool v = (case v of JBool b \<Rightarrow> Some b | _ \<Rightarrow> None)"

text \<open>A keyword argument that is passed, or else the default of the field.\<close>

definition field :: "(string \<times> json) list \<Rightarrow> string \<Rightarrow> (json \<Rightarrow> 'a option) \<Rightarrow> 'a \<Rightarrow> 'a option" where
  "field kw k conv d = (case map_of kw k of None \<Rightarrow> Some d | Some v \<Rightarrow> conv v)"

text \<open>
  \<open>StrategyParams(**x)\<close>: TypeError when \<open>x\<close> is not a mapping or has a key that is not
  a field; every field has a default.
\<close>

definition make_params :: "json \<Rightarrow> error + StrategyParams option" where
  "make_params x =
     (case x of
        JObj kw \<Rightarrow>
          if \<not> list_all (\<lambda>(k, v). k \<in> set [''ma_fast'', ''ma_slow'', ''buy_pct'', ''tp1_pct'',
                                            ''tp2_pct'', ''sl_pct'', ''tp1_sell_prop'']) kw
          then Inl TypeError
          else Inr
            (Option.bind (field kw ''ma_fast'' as_int (ma_fast default_params)) (\<lambda>a.
             Option.bind (field kw ''ma_slow'' as_int (ma_slow default_params)) (\<lambda>b.
             Option.bind (field kw ''buy_pct'' as_float (buy_pct default_params)) (\<lambda>c.
             Option.bind (field kw ''tp1_pct'' as_float (tp1_pct default_params)) (\<lambda>d.
             Option.bind (field kw ''tp2_pct'' as_float (tp2_pct default_params)) (\<lambda>e.
             Option.bind (field kw ''sl_pct'' as_float (sl_pct default_params)) (\<lambda>f.
             Option.bind (field kw ''tp1_sell_prop'' as_float (tp1_sell_prop default_params)) (\<lambda>g.
             Some \<lparr>ma_fast = a, ma_slow = b, buy_pct = c, tp1_pct = d, tp2_pct = e,
                   sl_pct = f, tp1_sell_prop = g\<rparr>))))))))
      | _ \<Rightarrow> Inl TypeError)"

text \<open>
  \<open>Entry(**e)\<close>: TypeError when \<open>e\<close> is not a mapping, has a key that is not a field, or
  lacks price or size, which have no default; \<open>tp1_done\<close> defaults to False.
\<close>

definition make_entry :: "json \<Rightarrow> error + Entry option" where
  "make_entry x =
     (case x of
        JObj kw \<Rightarrow>
          if \<not> list_all (\<lambda>(k, v). k \<in> set [''price'', ''size'', ''tp1_done'']) kw
          then Inl TypeError
          else
            (case (map_of kw ''price'', map_of kw ''size'') of
               (Some pv, Some sv) \<Rightarrow>
                 Inr (Option.bind (as_float pv) (\<lambda>p.
                      Option.bind (as_float sv) (\<lambda>z.
                      Option.bind (field kw ''tp1_done'' as_bool False) (\<lambda>d.
                      Some \<lparr>price_e = p, size_e = z, tp1_done = d\<rparr>))))
             | _ \<Rightarrow> Inl TypeError)
      | _ \<Rightarrow> Inl TypeError)"

text \<open>The comprehension \<open>[Entry(**e) for e in xs]\<close> over a list.\<close>

fun make_entries :: "json list \<Rightarrow> error + Entry list option" where
  "make_entries [] = Inr (Some [])"
| "make_entries (x # xs) =
     (case make_entry x of
        Inl e \<Rightarrow> Inl e
      | Inr oe \<Rightarrow>
          (case make_entries xs of
             Inl e \<Rightarrow> Inl e
           | Inr oes \<Rightarrow>
               Inr (Option.bind oe (\<lambda>en. Option.bind oes (\<lambda>ens. Some (en # ens))))))"

text \<open>
  The comprehension over any JSON value: a list gives its entries; an object or a string
  is iterated too, yielding strings, on which \<open>Entry(**e)\<close> raises TypeError unless there
  is none; any other value is not iterable.
\<close>

definition entries_of :: "json \<Rightarrow> error + Entry list option" where
  "entries_of v =
     (case v of
        JArr xs \<Rightarrow> make_entries xs
      | JObj kw \<Rightarrow> if kw = [] then Inr (Some []) else Inl TypeError
      | JStr cs \<Rightarrow> if cs = [] then Inr (Some []) else Inl TypeError
      | _ \<Rightarrow> Inl TypeError)"

definition saved_state :: "Entry StrategyState" where
  "saved_state =
     \<lparr>params = default_params,
      long_entries =
        [\<lparr>price_e = 0, size_e = 1, tp1_done = False\<rparr>,
         \<lparr>price_e = 50, size_e = 2, tp1_done = False\<rparr>,
         \<lparr>price_e = 100, size_e = 3, tp1_done = False\<rparr>],
      short_entries = [\<lparr>price_e = 200, size_e = 4, tp1_done = False\<rparr>],
      completed_long_trades = 0, completed_short_trades = 0\<rparr>"

datatype loaded = Raises error | Restored "Entry StrategyState" | Restored_untyped

definition from_json :: "json \<Rightarrow> loaded" where
  "from_json raw =
     (case raw of
        JObj members \<Rightarrow>
          (case make_params (get members ''params'' (JObj [])) of
             Inl e \<Rightarrow> Raises e
           | Inr p \<Rightarrow>
               (case entries_of (get members ''long_entries'' (JArr [])) of
                  Inl e \<Rightarrow> Raises e
                | Inr ls \<Rightarrow>
                    (case entries_of (get members ''short_entries'' (JArr [])) of
                       Inl e \<Rightarrow> Raises e
                     | Inr ss \<Rightarrow>
                         (case Option.bind p (\<lambda>p'.
                               Option.bind ls (\<lambda>ls'.
                               Option.bind ss (\<lambda>ss'.
                               Option.bind (as_int (get members ''completed_long_trades'' (JInt 0))) (\<lambda>cl.
                               Option.bind (as_int (get members ''completed_short_trades'' (JInt 0))) (\<lambda>cs.
                               Some \<lparr>params = p', long_entries = ls', short_entries = ss',
                                     completed_long_trades = cl,
                                     completed_short_trades = cs\<rparr>))))) of
                            None \<Rightarrow> Restored_untyped
                          | Some s \<Rightarrow> Restored s))))
      | _ \<Rightarrow> Raises AttributeError)"

subsection \<open>The scan in the words of the specification\<close>

text \<open>
  The specification describes the scan entry by entry: the pnl of an entry, the first of
  its three ordered checks that trips, and what the tripped check does. These definitions
  follow that description, with the float operations of the code; the theorems below
  relate them to the loops of \<open>process_bar\<close>. A stop-loss trips only for a positive
  \<open>sl_pct\<close>, as the guard of \<open>should_stop_loss\<close> has it.
\<close>

datatype check = Tp1 | Sl | Tp2

definition long_pnl :: "real \<Rightarrow> Entry \<Rightarrow> real" where
  "long_pnl price e = fsub (fdiv price (price_e e)) 1"

definition short_pnl :: "real \<Rightarrow> Entry \<Rightarrow> real" where
  "short_pnl price e = fsub (fdiv (price_e e) price) 1"

definition first_check :: "StrategyParams \<Rightarrow> Entry \<Rightarrow> real \<Rightarrow> check option" where
  "first_check p e pnl_pct =
     (if \<not> tp1_done e \<and> pnl_pct \<ge> tp1_pct p then Some Tp1
      else if 0 < sl_pct p \<and> pnl_pct \<le> - sl_pct p then Some Sl
      else if tp1_done e \<and> pnl_pct \<ge> tp2_pct p then Some Tp2
      else None)"

definition close_long ::
  "store \<Rightarrow> nat StrategyState \<Rightarrow> real \<Rightarrow> nat \<Rightarrow> check \<Rightarrow> action list \<times> store \<times> nat StrategyState" where
  "close_long h s price i c =
     (let a = long_entries s ! i; e = h a in
      case c of
        Tp1 \<Rightarrow>
          ([\<lparr>act_op = ''tp1_long'', act_side = ''sell'',
             act_size = fmul (size_e e) (tp1_sell_prop (params s)), act_price = price,
             act_notional = None\<rparr>],
           h(a := e\<lparr>tp1_done := True,
                    size_e := fsub (size_e e) (fmul (size_e e) (tp1_sell_prop (params s)))\<rparr>),
           s)
      | Sl \<Rightarrow>
          ([\<lparr>act_op = ''sl_long'', act_side = ''sell'', act_size = size_e e,
             act_price = price, act_notional = None\<rparr>],
           h,
           s\<lparr>long_entries := pop (long_entries s) i\<rparr>)
      | Tp2 \<Rightarrow>
          ([\<lparr>act_op = ''tp2_long'', act_side = ''sell'', act_size = size_e e,
             act_price = price, act_notional = None\<rparr>],
           h,
           s\<lparr>long_entries := pop (long_entries s) i,
             completed_long_trades := completed_long_trades s + 1\<rparr>))"

definition close_short ::
  "store \<Rightarrow> nat StrategyState \<Rightarrow> real \<Rightarrow> nat \<Rightarrow> check \<Rightarrow> action list \<times> store \<times> nat StrategyState" where
  "close_short h s price j c =
     (let a = short_entries s ! j; e = h a in
      case c of
        Tp1 \<Rightarrow>
          ([\<lparr>act_op = ''tp1_short'', act_side = ''buy'',
             act_size = fmul (size_e e) (tp1_sell_prop (params s)), act_price = price,
             act_notional = None\<rparr>],
           h(a := e\<lparr>tp1_done := True,
                    size_e := fsub (size_e e) (fmul (size_e e) (tp1_sell_prop (params s)))\<rparr>),
           s)
      | Sl \<Rightarrow>
          ([\<lparr>act_op = ''sl_short'', act_side = ''buy'', act_size = size_e e,
             act_price = price, act_notional = None\<rparr>],
           h,
           s\<lparr>short_entries := pop (short_entries s) j\<rparr>)
      | Tp2 \<Rightarrow>
          ([\<lparr>act_op = ''tp2_short'', act_side = ''buy'', act_size = size_e e,
             act_price = price, act_notional = None\<rparr>],
           h,
           s\<lparr>short_entries := pop (short_entries s) j,
             completed_short_trades := completed_short_trades s + 1\<rparr>))"

text \<open>An entry that the scan passes over: it raises nothing and none of its checks trips.\<close>

definition quiet_long :: "StrategyParams \<Rightarrow> real \<Rightarrow> Entry \<Rightarrow> bool" where
  "quiet_long p price e = (price_e e \<noteq> 0 \<and> first_check p e (long_pnl price e) = None)"

definition quiet_short :: "StrategyParams \<Rightarrow> real \<Rightarrow> Entry \<Rightarrow> bool" where
  "quiet_short p price e = (first_check p e (short_pnl price e) = None)"

text \<open>
  The guards a bar passes to reach the scan: enough history, windows that the rolling mean
  accepts, a positive close, and no entry opened.
\<close>

definition enough_history :: "StrategyParams \<Rightarrow> real list \<Rightarrow> bool" where
  "enough_history p close = (max (max (ma_fast p) (ma_slow p)) 120 + 1 \<le> int (length close))"

definition reaches_scan ::
  "rolling_means \<Rightarrow> nat StrategyState \<Rightarrow> real list \<Rightarrow> real \<Rightarrow> real \<Rightarrow> bool" where
  "reaches_scan rolling s close account_value cash =
     (enough_history (params s) close
      \<and> 0 \<le> ma_fast (params s) \<and> 0 \<le> ma_slow (params s)
      \<and> 0 < close ! (length close - 1)
      \<and> \<not> (long_signal rolling (params s) close
            \<and> cash \<ge> fmul account_value (buy_pct (params s)))
      \<and> \<not> short_signal rolling (params s) close)"

subsection \<open>Concrete bars, objects and states\<close>

text \<open>
  The numbers of the examples are doubles, and so are the results of every operation made
  on them: the code computes what is stated. \<open>window_mean\<close> is the rolling mean on a
  series of whole numbers, where the sums of the library are exact and its mean is the
  rounded quotient. A flat series of 121 closes at 100 gives no crossover; the bull and
  bear series end in a crossover above, respectively below, all three averages.
\<close>

definition window_mean :: rolling_means where
  "window_mean xs w i =
     (if 1 \<le> w \<and> nat w \<le> Suc i \<and> i < length xs
      then Some (fdiv (sum_list (take (nat w) (drop (Suc i - nat w) xs))) (of_int w))
      else None)"

definition dyadic_params :: StrategyParams where
  "dyadic_params = \<lparr>ma_fast = 10, ma_slow = 20, buy_pct = 1 / 4, tp1_pct = 1 / 8,
     tp2_pct = 1 / 4, sl_pct = 1 / 4, tp1_sell_prop = 1 / 2\<rparr>"

definition flat_close :: "real list" where
  "flat_close = replicate 121 100"

definition flat_frame :: "string \<rightharpoonup> real list" where
  "flat_frame = [''close'' \<mapsto> flat_close]"

text \<open>The objects of the examples, by address; every other address holds a blank entry.\<close>

definition book :: store where
  "book a =
     (if a = 10 then \<lparr>price_e = 0, size_e = 1, tp1_done = False\<rparr>
      else if a = 11 then \<lparr>price_e = 50, size_e = 2, tp1_done = False\<rparr>
      else if a = 12 then \<lparr>price_e = 100, size_e = 3, tp1_done = False\<rparr>
      else if a = 13 then \<lparr>price_e = 200, size_e = 4, tp1_done = False\<rparr>
      else if a = 14 then \<lparr>price_e = 80, size_e = 5, tp1_done = True\<rparr>
      else if a = 15 then \<lparr>price_e = 125, size_e = 6, tp1_done = True\<rparr>
      else if a = 16 then \<lparr>price_e = 50, size_e = 7, tp1_done = False\<rparr>
      else \<lparr>price_e = 0, size_e = 0, tp1_done = False\<rparr>)"

definition ledger_state :: "nat list \<Rightarrow> nat list \<Rightarrow> nat StrategyState" where
  "ledger_state ls ss = \<lparr>params = dyadic_params, long_entries = ls, short_entries = ss,
     completed_long_trades = 0, completed_short_trades = 0\<rparr>"

definition ninety_state :: "nat StrategyState" where
  "ninety_state =
     \<lparr>params = dyadic_params\<lparr>tp1_sell_prop := 8106479329266893 / 9007199254740992\<rparr>,
      long_entries = [12], short_entries = [],
      completed_long_trades = 0, completed_short_trades = 0\<rparr>"

definition ninety_book :: store where
  "ninety_book = book(12 := \<lparr>price_e = 50, size_e = 3, tp1_done = False\<rparr>)"

definition bull_close :: "real list" where
  "bull_close = replicate 119 100 @ [90, 200]"

definition bear_close :: "real list" where
  "bear_close = replicate 119 100 @ [110, 30]"

definition bull_frame :: "string \<rightharpoonup> real list" where
  "bull_frame = [''close'' \<mapsto> bull_close]"

definition bear_frame :: "string \<rightharpoonup> real list" where
  "bear_frame = [''close'' \<mapsto> bear_close]"

definition no_close_frame :: "string \<rightharpoonup> real list" where
  "no_close_frame = [''open'' \<mapsto> bear_close]"

definition short_bear_close :: "real list" where
  "short_bear_close = replicate 118 100 @ [110, 30]"

definition zero_close :: "real list" where
  "zero_close = replicate 120 100 @ [0]"





text \<open>A dictionary without the key \<open>k\<close>.\<close>

definition without :: "string \<Rightarrow> (string \<times> json) list \<Rightarrow> (string \<times> json) list" where
  "without k kw = filter (\<lambda>(k', v). k' \<noteq> k) kw"

definition empty_state :: "Entry StrategyState" where
  "empty_state = \<lparr>params = default_params, long_entries = [], short_entries = [],
     completed_long_trades = 0, completed_short_trades = 0\<rparr>"

definition priceless_snapshot :: "(string \<times> json) list" where
  "priceless_snapshot =
     [(''params'', params_dict default_params),
      (''long_entries'', JArr [JObj [(''size'', JFloat 1), (''tp1_done'', JBool False)]]),
      (''short_entries'', JArr []),
      (''completed_long_trades'', JInt 3),
      (''completed_short_trades'', JInt 4)]"

section \<open>Serialization\<close>

lemma make_params_dict: "make_params (params_dict p) = Inr (Some p)"
  by (simp add: make_params_def params_dict_def field_def as_int_def as_float_def)

lemma make_entry_dict: "make_entry (entry_dict e) = Inr (Some e)"
  by (simp add: make_entry_def entry_dict_def field_def as_float_def as_bool_def)

lemma make_entries_dicts: "make_entries (map entry_dict es) = Inr (Some es)"
  by (induction es) (simp_all add: make_entry_dict)

text \<open>
  Claim C6. Deserializing the serialized form of any state gives that state back, field
  for field: params, both ledgers with their \<open>tp1_done\<close> flags, both counters.
\<close>

theorem from_json_to_json: "from_json (to_json s) = Restored s"
  by (simp add: from_json_def to_json_def get_def make_params_dict entries_of_def
      make_entries_dicts as_int_def)

theorem from_json_to_json_witness: "from_json (to_json saved_state) = Restored saved_state"
  using from_json_to_json [of saved_state] .

section \<open>The management scan\<close>

lemma truediv_nz: "b \<noteq> 0 \<Longrightarrow> truediv a b = Inr (fdiv a b)"
  by (simp add: truediv_def)

lemma should_stop_loss_long:
  "ep \<noteq> 0 \<Longrightarrow> should_stop_loss ep cp ''long'' sl = Inr (0 < sl \<and> fsub (fdiv cp ep) 1 \<le> - sl)"
  by (auto simp add: should_stop_loss_def truediv_def)

lemma should_stop_loss_short:
  "cp \<noteq> 0 \<Longrightarrow> should_stop_loss ep cp ''short'' sl = Inr (0 < sl \<and> fsub (fdiv ep cp) 1 \<le> - sl)"
  by (auto simp add: should_stop_loss_def truediv_def)

lemma scan_long_step:
  assumes "price_e (h (long_entries s ! i)) \<noteq> 0"
  shows "scan_long h s price (Suc i) =
           (case first_check (params s) (h (long_entries s ! i))
                   (long_pnl price (h (long_entries s ! i))) of
              Some c \<Rightarrow> Inr (Some (close_long h s price i c))
            | None \<Rightarrow> scan_long h s price i)"
  using assms
  by (simp add: Let_def truediv_nz should_stop_loss_long first_check_def close_long_def long_pnl_def)

lemma scan_long_skip:
  assumes "\<forall>k. i \<le> k \<and> k < n \<longrightarrow> quiet_long (params s) price (h (long_entries s ! k))"
    and "i \<le> n"
  shows "scan_long h s price n = scan_long h s price i"
  using assms
proof (induction n)
  case 0
  then show ?case by simp
next
  case (Suc n)
  show ?case
  proof (cases "i = Suc n")
    case True
    then show ?thesis by simp
  next
    case False
    with Suc.prems have le: "i \<le> n" by simp
    from Suc.prems le have here: "price_e (h (long_entries s ! n)) \<noteq> 0"
      "first_check (params s) (h (long_entries s ! n)) (long_pnl price (h (long_entries s ! n))) = None"
      by (auto simp add: quiet_long_def)
    have "scan_long h s price (Suc n) = scan_long h s price n"
      by (subst scan_long_step) (simp_all add: here)
    also have "\<dots> = scan_long h s price i"
      using Suc.IH Suc.prems le by simp
    finally show ?thesis .
  qed
qed

lemma scan_short_step:
  assumes "price \<noteq> 0"
  shows "scan_short h s price (Suc j) =
           (case first_check (params s) (h (short_entries s ! j))
                   (short_pnl price (h (short_entries s ! j))) of
              Some c \<Rightarrow> Inr (Some (close_short h s price j c))
            | None \<Rightarrow> scan_short h s price j)"
  using assms
  by (simp add: Let_def truediv_nz should_stop_loss_short first_check_def close_short_def short_pnl_def)

lemma scan_short_skip:
  assumes "\<forall>k. j \<le> k \<and> k < n \<longrightarrow> quiet_short (params s) price (h (short_entries s ! k))"
    and "j \<le> n" and "price \<noteq> 0"
  shows "scan_short h s price n = scan_short h s price j"
  using assms
proof (induction n)
  case 0
  then show ?case by simp
next
  case (Suc n)
  show ?case
  proof (cases "j = Suc n")
    case True
    then show ?thesis by simp
  next
    case False
    with Suc.prems have le: "j \<le> n" by simp
    from Suc.prems le have here:
      "first_check (params s) (h (short_entries s ! n)) (short_pnl price (h (short_entries s ! n))) = None"
      by (auto simp add: quiet_short_def)
    have "scan_short h s price (Suc n) = scan_short h s price n"
      by (subst scan_short_step) (simp_all add: here Suc.prems)
    also have "\<dots> = scan_short h s price j"
      using Suc.IH Suc.prems le by simp
    finally show ?thesis .
  qed
qed

lemma drop_all_nth:
  assumes "\<forall>a\<in>set (drop i xs). P a" and "i \<le> k" and "k < length xs"
  shows "P (xs ! k)"
proof -
  have "xs ! k = drop i xs ! (k - i)" using assms(2,3) by simp
  moreover have "k - i < length (drop i xs)" using assms(2,3) by simp
  ultimately show ?thesis using assms(1) by (metis nth_mem)
qed

lemma scan_long_hit:
  assumes "i < length (long_entries s)"
    and "\<forall>a\<in>set (drop (Suc i) (long_entries s)). quiet_long (params s) price (h a)"
    and "price_e (h (long_entries s ! i)) \<noteq> 0"
    and "first_check (params s) (h (long_entries s ! i))
           (long_pnl price (h (long_entries s ! i))) = Some c"
  shows "scan_long h s price (length (long_entries s)) = Inr (Some (close_long h s price i c))"
proof -
  have "\<forall>k. Suc i \<le> k \<and> k < length (long_entries s)
          \<longrightarrow> quiet_long (params s) price (h (long_entries s ! k))"
    using drop_all_nth [OF assms(2)] by simp
  then have "scan_long h s price (length (long_entries s)) = scan_long h s price (Suc i)"
    using assms(1) by (intro scan_long_skip) simp_all
  also have "\<dots> = Inr (Some (close_long h s price i c))"
    by (subst scan_long_step) (simp_all add: assms(3,4))
  finally show ?thesis .
qed

lemma scan_long_none:
  assumes "\<forall>a\<in>set (long_entries s). quiet_long (params s) price (h a)"
  shows "scan_long h s price (length (long_entries s)) = Inr None"
proof -
  have "\<forall>k. 0 \<le> k \<and> k < length (long_entries s)
          \<longrightarrow> quiet_long (params s) price (h (long_entries s ! k))"
    using assms by simp
  then have "scan_long h s price (length (long_entries s)) = scan_long h s price 0"
    by (intro scan_long_skip) simp_all
  then show ?thesis by simp
qed

lemma scan_short_hit:
  assumes "j < length (short_entries s)" and "price \<noteq> 0"
    and "\<forall>a\<in>set (drop (Suc j) (short_entries s)). quiet_short (params s) price (h a)"
    and "first_check (params s) (h (short_entries s ! j))
           (short_pnl price (h (short_entries s ! j))) = Some c"
  shows "scan_short h s price (length (short_entries s)) = Inr (Some (close_short h s price j c))"
proof -
  have "\<forall>k. Suc j \<le> k \<and> k < length (short_entries s)
          \<longrightarrow> quiet_short (params s) price (h (short_entries s ! k))"
    using drop_all_nth [OF assms(3)] by simp
  then have "scan_short h s price (length (short_entries s)) = scan_short h s price (Suc j)"
    using assms(1,2) by (intro scan_short_skip) simp_all
  also have "\<dots> = Inr (Some (close_short h s price j c))"
    by (subst scan_short_step) (simp_all add: assms(2,4))
  finally show ?thesis .
qed

lemma scan_short_none:
  assumes "\<forall>a\<in>set (short_entries s). quiet_short (params s) price (h a)" and "price \<noteq> 0"
  shows "scan_short h s price (length (short_entries s)) = Inr None"
proof -
  have "\<forall>k. 0 \<le> k \<and> k < length (short_entries s)
          \<longrightarrow> quiet_short (params s) price (h (short_entries s ! k))"
    using assms(1) by simp
  then have "scan_short h s price (length (short_entries s)) = scan_short h s price 0"
    using assms(2) by (intro scan_short_skip) simp_all
  then show ?thesis by simp
qed

lemma manage_long_hit:
  assumes "i < length (long_entries s)"
    and "\<forall>a\<in>set (drop (Suc i) (long_entries s)). quiet_long (params s) price (h a)"
    and "price_e (h (long_entries s ! i)) \<noteq> 0"
    and "first_check (params s) (h (long_entries s ! i))
           (long_pnl price (h (long_entries s ! i))) = Some c"
  shows "manage h s price = Inr (close_long h s price i c)"
  by (simp add: manage_def scan_long_hit [OF assms])

lemma manage_short_hit:
  assumes "\<forall>a\<in>set (long_entries s). quiet_long (params s) price (h a)"
    and "j < length (short_entries s)" and "price \<noteq> 0"
    and "\<forall>a\<in>set (drop (Suc j) (short_entries s)). quiet_short (params s) price (h a)"
    and "first_check (params s) (h (short_entries s ! j))
           (short_pnl price (h (short_entries s ! j))) = Some c"
  shows "manage h s price = Inr (close_short h s price j c)"
  by (simp add: manage_def scan_long_none [OF assms(1)] scan_short_hit [OF assms(2-5)])

lemma manage_none:
  assumes "\<forall>a\<in>set (long_entries s). quiet_long (params s) price (h a)"
    and "\<forall>a\<in>set (short_entries s). quiet_short (params s) price (h a)" and "price \<noteq> 0"
  shows "manage h s price = Inr ([], h, s)"
  by (simp add: manage_def scan_long_none [OF assms(1)] scan_short_none [OF assms(2,3)])

lemma process_bar_manage:
  assumes "df ''close'' = Some close" and "reaches_scan rolling s close account_value cash"
  shows "process_bar rolling h s df account_value cash = manage h s (close ! (length close - 1))"
  using assms
  by (auto simp add: process_bar_def reaches_scan_def enough_history_def Let_def)

lemma scale_down_eval:
  "0 < n \<Longrightarrow> scale_down n x e = (if 2 \<le> x then scale_down (n - 1) (x / 2) (e + 1) else e)"
  by (cases n) simp_all

lemma scale_up_eval:
  "0 < n \<Longrightarrow> scale_up n x e = (if x < 1 then scale_up (n - 1) (2 * x) (e - 1) else e)"
  by (cases n) simp_all

lemmas fl_eval = fl_def exponent_def scale_down_eval scale_up_eval round_even_def pow2_def Let_def

lemmas float_eval = fmul_def fsub_def fdiv_def fl_eval

lemma fl_values:
  "fl 0 = 0" "fl 1 = 1" "fl 2 = 2" "fl 3 = 3" "fl 100 = 100"
  "fl (1 / 2) = 1 / 2" "fl (- (1 / 2)) = - (1 / 2)" "fl (1 / 4) = 1 / 4" "fl (5 / 4) = 5 / 4"
  by (simp_all add: fl_eval)

lemma flat_frame_close: "flat_frame ''close'' = Some flat_close"
  by (simp add: flat_frame_def)

lemma flat_means:
  "window_mean flat_close 10 120 = Some 100" "window_mean flat_close 10 119 = Some 100"
  "window_mean flat_close 20 120 = Some 100" "window_mean flat_close 20 119 = Some 100"
  "window_mean flat_close 120 120 = Some 100"
  by (simp_all add: window_mean_def flat_close_def fdiv_def sum_list_replicate fl_values)

lemma flat_no_long_signal: "\<not> long_signal window_mean dyadic_params flat_close"
  using flat_means
  by (simp add: long_signal_def dyadic_params_def Let_def lt_nan_def gt_nan_def)
     (simp add: flat_close_def)

lemma flat_no_short_signal: "\<not> short_signal window_mean dyadic_params flat_close"
  using flat_means
  by (simp add: short_signal_def dyadic_params_def Let_def lt_nan_def gt_nan_def)
     (simp add: flat_close_def)

lemma flat_reaches_scan: "reaches_scan window_mean (ledger_state ls ss) flat_close av cash"
  using flat_no_long_signal flat_no_short_signal
  by (simp add: reaches_scan_def ledger_state_def enough_history_def)
     (simp add: dyadic_params_def flat_close_def)

lemma book_pnl:
  "long_pnl 100 (book 11) = 1" "long_pnl 100 (book 12) = 0" "long_pnl 100 (book 13) = - (1 / 2)"
  "long_pnl 100 (book 14) = 1 / 4"
  "short_pnl 100 (book 12) = 0" "short_pnl 100 (book 13) = 1" "short_pnl 100 (book 15) = 1 / 4"
  "short_pnl 100 (book 16) = - (1 / 2)"
  by (simp_all add: long_pnl_def short_pnl_def book_def fsub_def fdiv_def fl_values)

lemma book_checks:
  "first_check dyadic_params (book 11) (long_pnl 100 (book 11)) = Some Tp1"
  "first_check dyadic_params (book 12) (long_pnl 100 (book 12)) = None"
  "first_check dyadic_params (book 13) (long_pnl 100 (book 13)) = Some Sl"
  "first_check dyadic_params (book 14) (long_pnl 100 (book 14)) = Some Tp2"
  "first_check dyadic_params (book 12) (short_pnl 100 (book 12)) = None"
  "first_check dyadic_params (book 13) (short_pnl 100 (book 13)) = Some Tp1"
  "first_check dyadic_params (book 15) (short_pnl 100 (book 15)) = Some Tp2"
  "first_check dyadic_params (book 16) (short_pnl 100 (book 16)) = Some Sl"
  by (simp_all add: book_pnl first_check_def dyadic_params_def) (simp_all add: book_def)

text \<open>
  Claim C1. On a bar that opens no new entry, the long entries are scanned from the most
  recently appended to the oldest, and the short entries the same way only when no check
  trips on any long entry; within an entry the checks run in the order tier-1 take-profit,
  stop-loss, tier-2 take-profit (\<open>first_check\<close>); the first check that trips produces the
  one action and ends the scan. The entries not yet visited are not evaluated: the result
  holds whatever they are, also when visiting one of them would divide by zero.
\<close>

theorem process_bar_scan_order:
  assumes "df ''close'' = Some close"
    and "reaches_scan rolling s close account_value cash"
    and "price = close ! (length close - 1)"
  shows "(i < length (long_entries s)
          \<and> (\<forall>a\<in>set (drop (Suc i) (long_entries s)). quiet_long (params s) price (h a))
          \<and> price_e (h (long_entries s ! i)) \<noteq> 0
          \<and> first_check (params s) (h (long_entries s ! i))
               (long_pnl price (h (long_entries s ! i))) = Some c
          \<longrightarrow> process_bar rolling h s df account_value cash = Inr (close_long h s price i c))
       \<and> ((\<forall>a\<in>set (long_entries s). quiet_long (params s) price (h a))
          \<and> j < length (short_entries s)
          \<and> (\<forall>a\<in>set (drop (Suc j) (short_entries s)). quiet_short (params s) price (h a))
          \<and> first_check (params s) (h (short_entries s ! j))
               (short_pnl price (h (short_entries s ! j))) = Some c'
          \<longrightarrow> process_bar rolling h s df account_value cash = Inr (close_short h s price j c'))
       \<and> ((\<forall>a\<in>set (long_entries s). quiet_long (params s) price (h a))
          \<and> (\<forall>a\<in>set (short_entries s). quiet_short (params s) price (h a))
          \<longrightarrow> process_bar rolling h s df account_value cash = Inr ([], h, s))"
proof -
  have pb: "process_bar rolling h s df account_value cash = manage h s price"
    using process_bar_manage [of df close rolling s account_value cash h] assms by simp
  have pos: "price \<noteq> 0"
    using assms(2,3) by (simp add: reaches_scan_def)
  show ?thesis
    unfolding pb
    using manage_long_hit [of i s price h c] manage_short_hit [of s price h j c']
      manage_none [of s price h] pos
    by blast
qed

theorem process_bar_scan_order_witness:
  "process_bar window_mean book (ledger_state [10, 11, 12] [13]) flat_frame 1000 1000
     = Inr (close_long book (ledger_state [10, 11, 12] [13]) 100 1 Tp1)
   \<and> process_bar window_mean book (ledger_state [12] [15, 12]) flat_frame 1000 1000
     = Inr (close_short book (ledger_state [12] [15, 12]) 100 0 Tp2)
   \<and> process_bar window_mean book (ledger_state [12] [12]) flat_frame 1000 1000
     = Inr ([], book, ledger_state [12] [12])"
proof -
  have p: "(100::real) = flat_close ! (length flat_close - 1)"
    by (simp add: flat_close_def)
  note ev = ledger_state_def quiet_long_def quiet_short_def book_checks
  have a: "process_bar window_mean book (ledger_state [10, 11, 12] [13]) flat_frame 1000 1000
     = Inr (close_long book (ledger_state [10, 11, 12] [13]) 100 1 Tp1)"
    using process_bar_scan_order [where df = flat_frame and close = flat_close and price = 100
        and rolling = window_mean and h = book and s = "ledger_state [10, 11, 12] [13]"
        and account_value = 1000 and cash = 1000 and i = 1 and c = Tp1]
      flat_frame_close p
    by (simp add: flat_reaches_scan) (simp add: ev, simp add: book_def)
  have b: "process_bar window_mean book (ledger_state [12] [15, 12]) flat_frame 1000 1000
     = Inr (close_short book (ledger_state [12] [15, 12]) 100 0 Tp2)"
    using process_bar_scan_order [where df = flat_frame and close = flat_close and price = 100
        and rolling = window_mean and h = book and s = "ledger_state [12] [15, 12]"
        and account_value = 1000 and cash = 1000 and j = 0 and c' = Tp2]
      flat_frame_close p
    by (simp add: flat_reaches_scan) (simp add: ev, simp add: book_def)
  have c: "process_bar window_mean book (ledger_state [12] [12]) flat_frame 1000 1000
     = Inr ([], book, ledger_state [12] [12])"
    using process_bar_scan_order [where df = flat_frame and close = flat_close and price = 100
        and rolling = window_mean and h = book and s = "ledger_state [12] [12]"
        and account_value = 1000 and cash = 1000]
      flat_frame_close p
    by (simp add: flat_reaches_scan) (simp add: ev, simp add: book_def)
  from a b c show ?thesis by simp
qed

lemma first_check_tp1:
  "\<not> tp1_done e \<Longrightarrow> tp1_pct p \<le> pnl \<Longrightarrow> first_check p e pnl = Some Tp1"
  by (simp add: first_check_def)

lemma first_check_tp2:
  "tp1_done e \<Longrightarrow> tp2_pct p \<le> pnl \<Longrightarrow> 0 < tp2_pct p \<Longrightarrow> first_check p e pnl = Some Tp2"
  by (simp add: first_check_def)

lemma first_check_sl:
  "pnl \<le> - sl_pct p \<Longrightarrow> 0 < sl_pct p \<Longrightarrow> 0 < tp1_pct p \<Longrightarrow> first_check p e pnl = Some Sl"
  by (simp add: first_check_def)

lemma tp1_entry_eq:
  "e\<lparr>tp1_done := True, size_e := z\<rparr> = \<lparr>price_e = price_e e, size_e = z, tp1_done = True\<rparr>"
  by simp

text \<open>
  Claim C2, as amended. When the first entry to trip in the scan is a long entry with
  \<open>tp1_done\<close> false and \<open>price / entry.price - 1 \<ge> tp1_pct\<close> (or a short entry with
  \<open>entry.price / price - 1 \<ge> tp1_pct\<close>), both computed in floats, \<open>process_bar\<close> emits one
  tier-1 action of size \<open>size * tp1_sell_prop\<close>, sets \<open>tp1_done\<close> of the \<open>Entry\<close> object and
  leaves it the size \<open>size - size * tp1_sell_prop\<close>, the product rounded and then the
  difference rounded. The ledgers and both counters keep their values; every position of
  a ledger that holds this object shows the change.
\<close>

theorem tp1_first_trigger:
  assumes "df ''close'' = Some close"
    and "reaches_scan rolling s close account_value cash"
    and "price = close ! (length close - 1)"
  shows "(i < length (long_entries s)
          \<and> (\<forall>a\<in>set (drop (Suc i) (long_entries s)). quiet_long (params s) price (h a))
          \<and> price_e (h (long_entries s ! i)) \<noteq> 0
          \<and> \<not> tp1_done (h (long_entries s ! i))
          \<and> fsub (fdiv price (price_e (h (long_entries s ! i)))) 1 \<ge> tp1_pct (params s)
          \<longrightarrow> process_bar rolling h s df account_value cash =
                Inr ([\<lparr>act_op = ''tp1_long'', act_side = ''sell'',
                       act_size = fmul (size_e (h (long_entries s ! i))) (tp1_sell_prop (params s)),
                       act_price = price, act_notional = None\<rparr>],
                     h(long_entries s ! i :=
                         \<lparr>price_e = price_e (h (long_entries s ! i)),
                          size_e = fsub (size_e (h (long_entries s ! i)))
                                     (fmul (size_e (h (long_entries s ! i)))
                                        (tp1_sell_prop (params s))),
                          tp1_done = True\<rparr>),
                     s))
       \<and> ((\<forall>a\<in>set (long_entries s). quiet_long (params s) price (h a))
          \<and> j < length (short_entries s)
          \<and> (\<forall>a\<in>set (drop (Suc j) (short_entries s)). quiet_short (params s) price (h a))
          \<and> \<not> tp1_done (h (short_entries s ! j))
          \<and> fsub (fdiv (price_e (h (short_entries s ! j))) price) 1 \<ge> tp1_pct (params s)
          \<longrightarrow> process_bar rolling h s df account_value cash =
                Inr ([\<lparr>act_op = ''tp1_short'', act_side = ''buy'',
                       act_size = fmul (size_e (h (short_entries s ! j))) (tp1_sell_prop (params s)),
                       act_price = price, act_notional = None\<rparr>],
                     h(short_entries s ! j :=
                         \<lparr>price_e = price_e (h (short_entries s ! j)),
                          size_e = fsub (size_e (h (short_entries s ! j)))
                                     (fmul (size_e (h (short_entries s ! j)))
                                        (tp1_sell_prop (params s))),
                          tp1_done = True\<rparr>),
                     s))"
proof -
  have pb: "process_bar rolling h s df account_value cash = manage h s price"
    using process_bar_manage [of df close rolling s account_value cash h] assms by simp
  have pos: "price \<noteq> 0"
    using assms(2,3) by (simp add: reaches_scan_def)
  have long: "manage h s price = Inr (close_long h s price i Tp1)"
    if "i < length (long_entries s)"
      and "\<forall>a\<in>set (drop (Suc i) (long_entries s)). quiet_long (params s) price (h a)"
      and "price_e (h (long_entries s ! i)) \<noteq> 0"
      and "\<not> tp1_done (h (long_entries s ! i))"
      and "fsub (fdiv price (price_e (h (long_entries s ! i)))) 1 \<ge> tp1_pct (params s)"
    using that by (intro manage_long_hit) (simp_all add: first_check_tp1 long_pnl_def)
  have short: "manage h s price = Inr (close_short h s price j Tp1)"
    if "\<forall>a\<in>set (long_entries s). quiet_long (params s) price (h a)"
      and "j < length (short_entries s)"
      and "\<forall>a\<in>set (drop (Suc j) (short_entries s)). quiet_short (params s) price (h a)"
      and "\<not> tp1_done (h (short_entries s ! j))"
      and "fsub (fdiv (price_e (h (short_entries s ! j))) price) 1 \<ge> tp1_pct (params s)"
    using that pos by (intro manage_short_hit) (simp_all add: first_check_tp1 short_pnl_def)
  show ?thesis
    unfolding pb
    using long short by (simp add: close_long_def close_short_def tp1_entry_eq Let_def)
qed

theorem tp1_first_trigger_witness:
  "process_bar window_mean book (ledger_state [11, 12, 11] [13]) flat_frame 1000 1000 =
     Inr ([\<lparr>act_op = ''tp1_long'', act_side = ''sell'', act_size = 1,
            act_price = 100, act_notional = None\<rparr>],
          book(11 := \<lparr>price_e = 50, size_e = 1, tp1_done = True\<rparr>),
          ledger_state [11, 12, 11] [13])
   \<and> process_bar window_mean book (ledger_state [12] [13]) flat_frame 1000 1000 =
     Inr ([\<lparr>act_op = ''tp1_short'', act_side = ''buy'', act_size = 2,
            act_price = 100, act_notional = None\<rparr>],
          book(13 := \<lparr>price_e = 200, size_e = 2, tp1_done = True\<rparr>),
          ledger_state [12] [13])"
proof -
  have p: "(100::real) = flat_close ! (length flat_close - 1)"
    by (simp add: flat_close_def)
  have q: "quiet_long dyadic_params 100 (book 12)"
    using book_checks(2) by (simp add: quiet_long_def) (simp add: book_def)
  have pnl: "tp1_pct dyadic_params \<le> fsub (fdiv 100 (price_e (book 11))) 1"
    "tp1_pct dyadic_params \<le> fsub (fdiv (price_e (book 13)) 100) 1"
    using book_pnl(1,6) by (simp_all add: long_pnl_def short_pnl_def dyadic_params_def)
  have sz: "fmul (size_e (book 11)) (tp1_sell_prop dyadic_params) = 1"
    "fsub (size_e (book 11)) 1 = 1"
    "fmul (size_e (book 13)) (tp1_sell_prop dyadic_params) = 2"
    "fsub (size_e (book 13)) 2 = 2"
    by (simp_all add: book_def dyadic_params_def fmul_def fsub_def fl_values)
  have e: "price_e (book 11) = 50" "\<not> tp1_done (book 11)" "price_e (book 13) = 200"
    "\<not> tp1_done (book 13)"
    by (simp_all add: book_def)
  have a: "process_bar window_mean book (ledger_state [11, 12, 11] [13]) flat_frame 1000 1000 =
     Inr ([\<lparr>act_op = ''tp1_long'', act_side = ''sell'', act_size = 1,
            act_price = 100, act_notional = None\<rparr>],
          book(11 := \<lparr>price_e = 50, size_e = 1, tp1_done = True\<rparr>),
          ledger_state [11, 12, 11] [13])"
    using tp1_first_trigger [where df = flat_frame and close = flat_close and price = 100
        and rolling = window_mean and h = book and s = "ledger_state [11, 12, 11] [13]"
        and account_value = 1000 and cash = 1000 and i = 2]
      flat_frame_close p pnl(1)
    by (simp add: flat_reaches_scan) (simp add: ledger_state_def sz e)
  have b: "process_bar window_mean book (ledger_state [12] [13]) flat_frame 1000 1000 =
     Inr ([\<lparr>act_op = ''tp1_short'', act_side = ''buy'', act_size = 2,
            act_price = 100, act_notional = None\<rparr>],
          book(13 := \<lparr>price_e = 200, size_e = 2, tp1_done = True\<rparr>),
          ledger_state [12] [13])"
    using tp1_first_trigger [where df = flat_frame and close = flat_close and price = 100
        and rolling = window_mean and h = book and s = "ledger_state [12] [13]"
        and account_value = 1000 and cash = 1000 and j = 0]
      flat_frame_close p pnl(2) q
    by (simp add: flat_reaches_scan) (simp add: ledger_state_def sz e)
  from a b show ?thesis by simp
qed

text \<open>
  Claim C2 as stated fails in the last digits of the remaining size. An entry of size 3
  closed at tier 1 with \<open>tp1_sell_prop\<close> the double 0.9 keeps
  \<open>3 - 3 * 0.9 = 0.2999999999999998\<close>, while \<open>3 * (1 - 0.9)\<close> is \<open>0.29999999999999993\<close>,
  in floats and exactly.
\<close>

theorem tp1_remainder_rounding:
  "process_bar window_mean ninety_book ninety_state flat_frame 1000 1000 =
     Inr ([\<lparr>act_op = ''tp1_long'', act_side = ''sell'',
            act_size = 6079859496950170 / 2251799813685248,
            act_price = 100, act_notional = None\<rparr>],
          ninety_book(12 := \<lparr>price_e = 50,
                              size_e = 675539944105574 / 2251799813685248,
                              tp1_done = True\<rparr>),
          ninety_state)
   \<and> fmul 3 (fsub 1 (8106479329266893 / 9007199254740992))
       = 2702159776422297 / 9007199254740992
   \<and> (3::real) * (1 - 8106479329266893 / 9007199254740992)
       = 2702159776422297 / 9007199254740992
   \<and> (675539944105574 / 2251799813685248 :: real) < 2702159776422297 / 9007199254740992
   \<and> fl (9 / 10) = 8106479329266893 / 9007199254740992"
proof -
  have r: "reaches_scan window_mean ninety_state flat_close 1000 1000"
    using flat_means
    by (simp add: reaches_scan_def ninety_state_def enough_history_def long_signal_def
        short_signal_def Let_def lt_nan_def gt_nan_def)
       (simp add: dyadic_params_def flat_close_def)
  have m: "fmul 3 (8106479329266893 / 9007199254740992) = 3039929748475085 / 1125899906842624"
    by (simp add: fmul_def fl_eval)
  have d: "fsub 3 (3039929748475085 / 1125899906842624) = 337769972052787 / 1125899906842624"
    by (simp add: fsub_def fl_eval)
  have c2: "fmul 3 (fsub 1 (8106479329266893 / 9007199254740992))
      = 2702159776422297 / 9007199254740992"
    by (simp add: fmul_def fsub_def fl_eval)
  have c3: "(3::real) * (1 - 8106479329266893 / 9007199254740992)
      = 2702159776422297 / 9007199254740992"
    by simp
  have c4: "(675539944105574 / 2251799813685248 :: real) < 2702159776422297 / 9007199254740992"
    by simp
  have c5: "fl (9 / 10) = 8106479329266893 / 9007199254740992"
    by (simp add: fl_eval)
  have "process_bar window_mean ninety_book ninety_state flat_frame 1000 1000
      = manage ninety_book ninety_state 100"
    using process_bar_manage [of flat_frame flat_close window_mean ninety_state 1000 1000 ninety_book]
      flat_frame_close r
    by (simp add: flat_close_def)
  also have "\<dots> = Inr (close_long ninety_book ninety_state 100 0 Tp1)"
    by (rule manage_long_hit)
       (simp_all add: ninety_state_def ninety_book_def dyadic_params_def first_check_def
          long_pnl_def fsub_def fdiv_def fl_values)
  finally have a: "process_bar window_mean ninety_book ninety_state flat_frame 1000 1000
      = Inr (close_long ninety_book ninety_state 100 0 Tp1)" .
  have b: "close_long ninety_book ninety_state 100 0 Tp1 =
     ([\<lparr>act_op = ''tp1_long'', act_side = ''sell'',
        act_size = 6079859496950170 / 2251799813685248,
        act_price = 100, act_notional = None\<rparr>],
      ninety_book(12 := \<lparr>price_e = 50,
                          size_e = 675539944105574 / 2251799813685248,
                          tp1_done = True\<rparr>),
      ninety_state)"
    by (simp add: close_long_def Let_def ninety_state_def ninety_book_def dyadic_params_def m d)
  have c1: "process_bar window_mean ninety_book ninety_state flat_frame 1000 1000 =
     Inr ([\<lparr>act_op = ''tp1_long'', act_side = ''sell'',
            act_size = 6079859496950170 / 2251799813685248,
            act_price = 100, act_notional = None\<rparr>],
          ninety_book(12 := \<lparr>price_e = 50,
                              size_e = 675539944105574 / 2251799813685248,
                              tp1_done = True\<rparr>),
          ninety_state)"
    by (simp only: a b)
  show ?thesis
    by (intro conjI c1 c2 c3 c4 c5)
qed

text \<open>
  Claim C3. With the thresholds positive, as the data model has them, and the pnl computed
  in floats, \<open>price / entry.price - 1\<close> for a long entry and \<open>entry.price / price - 1\<close> for
  a short one: when the first entry to trip in the scan has \<open>tp1_done\<close> true and
  \<open>pnl \<ge> tp2_pct\<close>, \<open>process_bar\<close> removes it from its ledger, emits a tier-2 action for
  its whole size and adds one to the counter of its side only; when instead
  \<open>pnl \<le> - sl_pct\<close>, \<open>process_bar\<close> removes it, emits a stop-loss action for its whole
  size and leaves both counters alone. No object is written.
\<close>

theorem tp2_and_stop_loss_exits:
  assumes "df ''close'' = Some close"
    and "reaches_scan rolling s close account_value cash"
    and "price = close ! (length close - 1)"
    and "0 < tp1_pct (params s)" and "0 < tp2_pct (params s)" and "0 < sl_pct (params s)"
  shows "(i < length (long_entries s)
          \<and> (\<forall>a\<in>set (drop (Suc i) (long_entries s)). quiet_long (params s) price (h a))
          \<and> price_e (h (long_entries s ! i)) \<noteq> 0
          \<and> tp1_done (h (long_entries s ! i))
          \<and> fsub (fdiv price (price_e (h (long_entries s ! i)))) 1 \<ge> tp2_pct (params s)
          \<longrightarrow> process_bar rolling h s df account_value cash =
                Inr ([\<lparr>act_op = ''tp2_long'', act_side = ''sell'',
                       act_size = size_e (h (long_entries s ! i)),
                       act_price = price, act_notional = None\<rparr>],
                     h,
                     s\<lparr>long_entries := take i (long_entries s) @ drop (Suc i) (long_entries s),
                       completed_long_trades := completed_long_trades s + 1\<rparr>))
       \<and> (i < length (long_entries s)
          \<and> (\<forall>a\<in>set (drop (Suc i) (long_entries s)). quiet_long (params s) price (h a))
          \<and> price_e (h (long_entries s ! i)) \<noteq> 0
          \<and> fsub (fdiv price (price_e (h (long_entries s ! i)))) 1 \<le> - sl_pct (params s)
          \<longrightarrow> process_bar rolling h s df account_value cash =
                Inr ([\<lparr>act_op = ''sl_long'', act_side = ''sell'',
                       act_size = size_e (h (long_entries s ! i)),
                       act_price = price, act_notional = None\<rparr>],
                     h,
                     s\<lparr>long_entries := take i (long_entries s) @ drop (Suc i) (long_entries s)\<rparr>))
       \<and> ((\<forall>a\<in>set (long_entries s). quiet_long (params s) price (h a))
          \<and> j < length (short_entries s)
          \<and> (\<forall>a\<in>set (drop (Suc j) (short_entries s)). quiet_short (params s) price (h a))
          \<and> tp1_done (h (short_entries s ! j))
          \<and> fsub (fdiv (price_e (h (short_entries s ! j))) price) 1 \<ge> tp2_pct (params s)
          \<longrightarrow> process_bar rolling h s df account_value cash =
                Inr ([\<lparr>act_op = ''tp2_short'', act_side = ''buy'',
                       act_size = size_e (h (short_entries s ! j)),
                       act_price = price, act_notional = None\<rparr>],
                     h,
                     s\<lparr>short_entries := take j (short_entries s) @ drop (Suc j) (short_entries s),
                       completed_short_trades := completed_short_trades s + 1\<rparr>))
       \<and> ((\<forall>a\<in>set (long_entries s). quiet_long (params s) price (h a))
          \<and> j < length (short_entries s)
          \<and> (\<forall>a\<in>set (drop (Suc j) (short_entries s)). quiet_short (params s) price (h a))
          \<and> fsub (fdiv (price_e (h (short_entries s ! j))) price) 1 \<le> - sl_pct (params s)
          \<longrightarrow> process_bar rolling h s df account_value cash =
                Inr ([\<lparr>act_op = ''sl_short'', act_side = ''buy'',
                       act_size = size_e (h (short_entries s ! j)),
                       act_price = price, act_notional = None\<rparr>],
                     h,
                     s\<lparr>short_entries := take j (short_entries s) @ drop (Suc j) (short_entries s)\<rparr>))"
proof -
  have pb: "process_bar rolling h s df account_value cash = manage h s price"
    using process_bar_manage [of df close rolling s account_value cash h] assms(1-3) by simp
  have pos: "price \<noteq> 0"
    using assms(2,3) by (simp add: reaches_scan_def)
  have long_tp2: "manage h s price = Inr (close_long h s price i Tp2)"
    if "i < length (long_entries s)"
      and "\<forall>a\<in>set (drop (Suc i) (long_entries s)). quiet_long (params s) price (h a)"
      and "price_e (h (long_entries s ! i)) \<noteq> 0"
      and "tp1_done (h (long_entries s ! i))"
      and "fsub (fdiv price (price_e (h (long_entries s ! i)))) 1 \<ge> tp2_pct (params s)"
    using that assms(5) by (intro manage_long_hit) (simp_all add: first_check_tp2 long_pnl_def)
  have long_sl: "manage h s price = Inr (close_long h s price i Sl)"
    if "i < length (long_entries s)"
      and "\<forall>a\<in>set (drop (Suc i) (long_entries s)). quiet_long (params s) price (h a)"
      and "price_e (h (long_entries s ! i)) \<noteq> 0"
      and "fsub (fdiv price (price_e (h (long_entries s ! i)))) 1 \<le> - sl_pct (params s)"
    using that assms(4,6) by (intro manage_long_hit) (simp_all add: first_check_sl long_pnl_def)
  have short_tp2: "manage h s price = Inr (close_short h s price j Tp2)"
    if "\<forall>a\<in>set (long_entries s). quiet_long (params s) price (h a)"
      and "j < length (short_entries s)"
      and "\<forall>a\<in>set (drop (Suc j) (short_entries s)). quiet_short (params s) price (h a)"
      and "tp1_done (h (short_entries s ! j))"
      and "fsub (fdiv (price_e (h (short_entries s ! j))) price) 1 \<ge> tp2_pct (params s)"
    using that pos assms(5) by (intro manage_short_hit) (simp_all add: first_check_tp2 short_pnl_def)
  have short_sl: "manage h s price = Inr (close_short h s price j Sl)"
    if "\<forall>a\<in>set (long_entries s). quiet_long (params s) price (h a)"
      and "j < length (short_entries s)"
      and "\<forall>a\<in>set (drop (Suc j) (short_entries s)). quiet_short (params s) price (h a)"
      and "fsub (fdiv (price_e (h (short_entries s ! j))) price) 1 \<le> - sl_pct (params s)"
    using that pos assms(4,6) by (intro manage_short_hit) (simp_all add: first_check_sl short_pnl_def)
  show ?thesis
    unfolding pb
    using long_tp2 long_sl short_tp2 short_sl
    by (simp add: close_long_def close_short_def pop_def Let_def)
qed

theorem tp2_and_stop_loss_exits_witness:
  "process_bar window_mean book (ledger_state [14, 12] [16]) flat_frame 1000 1000 =
     Inr ([\<lparr>act_op = ''tp2_long'', act_side = ''sell'', act_size = 5,
            act_price = 100, act_notional = None\<rparr>],
          book,
          \<lparr>params = dyadic_params, long_entries = [12], short_entries = [16],
           completed_long_trades = 1, completed_short_trades = 0\<rparr>)
   \<and> process_bar window_mean book (ledger_state [13] []) flat_frame 1000 1000 =
     Inr ([\<lparr>act_op = ''sl_long'', act_side = ''sell'', act_size = 4,
            act_price = 100, act_notional = None\<rparr>],
          book, ledger_state [] [])
   \<and> process_bar window_mean book (ledger_state [] [16, 15]) flat_frame 1000 1000 =
     Inr ([\<lparr>act_op = ''tp2_short'', act_side = ''buy'', act_size = 6,
            act_price = 100, act_notional = None\<rparr>],
          book,
          \<lparr>params = dyadic_params, long_entries = [], short_entries = [16],
           completed_long_trades = 0, completed_short_trades = 1\<rparr>)
   \<and> process_bar window_mean book (ledger_state [] [16]) flat_frame 1000 1000 =
     Inr ([\<lparr>act_op = ''sl_short'', act_side = ''buy'', act_size = 7,
            act_price = 100, act_notional = None\<rparr>],
          book, ledger_state [] [])"
proof -
  have p: "(100::real) = flat_close ! (length flat_close - 1)"
    by (simp add: flat_close_def)
  have q: "quiet_long dyadic_params 100 (book 12)"
    using book_checks(2) by (simp add: quiet_long_def) (simp add: book_def)
  have pnl: "tp2_pct dyadic_params \<le> fsub (fdiv 100 (price_e (book 14))) 1"
    "fsub (fdiv 100 (price_e (book 13))) 1 \<le> - sl_pct dyadic_params"
    "tp2_pct dyadic_params \<le> fsub (fdiv (price_e (book 15)) 100) 1"
    "fsub (fdiv (price_e (book 16)) 100) 1 \<le> - sl_pct dyadic_params"
    using book_pnl(3,4,7,8) by (simp_all add: long_pnl_def short_pnl_def dyadic_params_def)
  have e: "price_e (book 14) \<noteq> 0" "tp1_done (book 14)" "size_e (book 14) = 5"
    "price_e (book 13) \<noteq> 0" "size_e (book 13) = 4"
    "tp1_done (book 15)" "size_e (book 15) = 6" "size_e (book 16) = 7"
    by (simp_all add: book_def)
  have th: "0 < tp1_pct dyadic_params" "0 < tp2_pct dyadic_params" "0 < sl_pct dyadic_params"
    by (simp_all add: dyadic_params_def)
  have a: "process_bar window_mean book (ledger_state [14, 12] [16]) flat_frame 1000 1000 =
     Inr ([\<lparr>act_op = ''tp2_long'', act_side = ''sell'', act_size = 5,
            act_price = 100, act_notional = None\<rparr>],
          book,
          \<lparr>params = dyadic_params, long_entries = [12], short_entries = [16],
           completed_long_trades = 1, completed_short_trades = 0\<rparr>)"
    using tp2_and_stop_loss_exits [where df = flat_frame and close = flat_close and price = 100
        and rolling = window_mean and h = book and s = "ledger_state [14, 12] [16]"
        and account_value = 1000 and cash = 1000 and i = 0]
      flat_frame_close p pnl(1) q th
    by (simp add: flat_reaches_scan) (simp add: ledger_state_def e)
  have b: "process_bar window_mean book (ledger_state [13] []) flat_frame 1000 1000 =
     Inr ([\<lparr>act_op = ''sl_long'', act_side = ''sell'', act_size = 4,
            act_price = 100, act_notional = None\<rparr>],
          book, ledger_state [] [])"
    using tp2_and_stop_loss_exits [where df = flat_frame and close = flat_close and price = 100
        and rolling = window_mean and h = book and s = "ledger_state [13] []"
        and account_value = 1000 and cash = 1000 and i = 0]
      flat_frame_close p pnl(2) th
    by (simp add: flat_reaches_scan) (simp add: ledger_state_def e)
  have c: "process_bar window_mean book (ledger_state [] [16, 15]) flat_frame 1000 1000 =
     Inr ([\<lparr>act_op = ''tp2_short'', act_side = ''buy'', act_size = 6,
            act_price = 100, act_notional = None\<rparr>],
          book,
          \<lparr>params = dyadic_params, long_entries = [], short_entries = [16],
           completed_long_trades = 0, completed_short_trades = 1\<rparr>)"
    using tp2_and_stop_loss_exits [where df = flat_frame and close = flat_close and price = 100
        and rolling = window_mean and h = book and s = "ledger_state [] [16, 15]"
        and account_value = 1000 and cash = 1000 and j = 1]
      flat_frame_close p pnl(3) th
    by (simp add: flat_reaches_scan) (simp add: ledger_state_def e)
  have d: "process_bar window_mean book (ledger_state [] [16]) flat_frame 1000 1000 =
     Inr ([\<lparr>act_op = ''sl_short'', act_side = ''buy'', act_size = 7,
            act_price = 100, act_notional = None\<rparr>],
          book, ledger_state [] [])"
    using tp2_and_stop_loss_exits [where df = flat_frame and close = flat_close and price = 100
        and rolling = window_mean and h = book and s = "ledger_state [] [16]"
        and account_value = 1000 and cash = 1000 and j = 0]
      flat_frame_close p pnl(4) th
    by (simp add: flat_reaches_scan) (simp add: ledger_state_def e)
  from a b c d show ?thesis by simp
qed

text \<open>
  The boundary in doubles: with the entry at 100, \<open>tp1_done\<close> true and \<open>tp2_pct\<close> the
  double 0.14, a close of 114 gives \<open>114 / 100 - 1 = 0.1399999999999999\<close>, below the
  threshold, and no check trips; a close of 115 trips the tier-2 exit.
\<close>

lemma tier2_boundary_in_doubles:
  "first_check default_params \<lparr>price_e = 100, size_e = 1, tp1_done = True\<rparr>
     (long_pnl 114 \<lparr>price_e = 100, size_e = 1, tp1_done = True\<rparr>) = None"
  "first_check default_params \<lparr>price_e = 100, size_e = 1, tp1_done = True\<rparr>
     (long_pnl 115 \<lparr>price_e = 100, size_e = 1, tp1_done = True\<rparr>) = Some Tp2"
proof -
  have v: "fsub (fdiv 114 100) 1 = 630503947831869 / 4503599627370496"
    "fsub (fdiv 115 100) 1 = 337769972052787 / 2251799813685248"
    "fl (7 / 50) = 1261007895663739 / 9007199254740992"
    "fl (9 / 50) = 3242591731706757 / 18014398509481984"
    by (simp_all add: float_eval)
  show "first_check default_params \<lparr>price_e = 100, size_e = 1, tp1_done = True\<rparr>
     (long_pnl 114 \<lparr>price_e = 100, size_e = 1, tp1_done = True\<rparr>) = None"
    by (simp add: first_check_def long_pnl_def default_params_def v)
  show "first_check default_params \<lparr>price_e = 100, size_e = 1, tp1_done = True\<rparr>
     (long_pnl 115 \<lparr>price_e = 100, size_e = 1, tp1_done = True\<rparr>) = Some Tp2"
    by (simp add: first_check_def long_pnl_def default_params_def v)
qed

section \<open>Opening an entry\<close>

lemma signals_exclusive: "long_signal rolling p close \<Longrightarrow> \<not> short_signal rolling p close"
  by (auto simp add: long_signal_def short_signal_def Let_def lt_nan_def gt_nan_def
      split: option.splits)

lemma fold_max_start: "(b::nat) \<le> fold max xs b"
proof (induction xs arbitrary: b)
  case Nil
  then show ?case by simp
next
  case (Cons x xs)
  have "b \<le> max x b" by simp
  also have "\<dots> \<le> fold max xs (max x b)" by (rule Cons.IH)
  finally show ?case by simp
qed

lemma fold_max_member: "a \<in> set xs \<Longrightarrow> (a::nat) \<le> fold max xs b"
proof (induction xs arbitrary: b)
  case Nil
  then show ?case by simp
next
  case (Cons x xs)
  show ?case
  proof (cases "a = x")
    case True
    have "a \<le> max x b" using True by simp
    also have "\<dots> \<le> fold max xs (max x b)" by (rule fold_max_start)
    finally show ?thesis by simp
  next
    case False
    with Cons.prems have "a \<in> set xs" by simp
    then show ?thesis using Cons.IH by simp
  qed
qed

lemma fresh_is_new: "fresh s \<notin> set (long_entries s) \<union> set (short_entries s)"
proof
  assume "fresh s \<in> set (long_entries s) \<union> set (short_entries s)"
  then have "fresh s \<in> set (long_entries s @ short_entries s)" by simp
  then have "fresh s \<le> fold max (long_entries s @ short_entries s) 0"
    by (rule fold_max_member)
  then show False by (simp add: fresh_def)
qed

lemma fl_means:
  "fl 99 = 99" "fl 109 = 109" "fl (199 / 2) = 199 / 2" "fl (209 / 2) = 209 / 2"
  "fl (403 / 4) = 403 / 4" "fl 101 = 101" "fl 94 = 94" "fl (201 / 2) = 201 / 2" "fl 97 = 97"
  "fl 300 = 300" "fl (3 / 2) = 3 / 2" "fl 10 = 10"
  by (simp_all add: fl_eval)

lemma bull_means:
  "window_mean bull_close 10 120 = Some 109" "window_mean bull_close 10 119 = Some 99"
  "window_mean bull_close 20 120 = Some (209 / 2)" "window_mean bull_close 20 119 = Some (199 / 2)"
  "window_mean bull_close 120 120 = Some (403 / 4)"
  by (simp_all add: window_mean_def bull_close_def fdiv_def sum_list_replicate fl_means)

lemma bear_means:
  "window_mean bear_close 10 120 = Some 94" "window_mean bear_close 10 119 = Some 101"
  "window_mean bear_close 20 120 = Some 97" "window_mean bear_close 20 119 = Some (201 / 2)"
  "window_mean bear_close 120 120 = Some (199 / 2)"
  by (simp_all add: window_mean_def bear_close_def fdiv_def sum_list_replicate fl_means)

lemma bull_long_signal: "long_signal window_mean dyadic_params bull_close"
  using bull_means
  by (simp add: long_signal_def dyadic_params_def Let_def lt_nan_def gt_nan_def)
     (simp add: bull_close_def nth_append)

lemma bear_short_signal: "short_signal window_mean dyadic_params bear_close"
  using bear_means
  by (simp add: short_signal_def dyadic_params_def Let_def lt_nan_def gt_nan_def)
     (simp add: bear_close_def nth_append)

text \<open>
  Claim C4. On a bar with enough history and a positive close: a bullish crossover with
  cash at least \<open>account_value * buy_pct\<close> appends a new long entry of size
  \<open>account_value * buy_pct / price\<close>, both in floats, with \<open>tp1_done\<close> false and returns
  the one open_long action, whatever the ledgers hold (no exit check runs); a bullish
  crossover with less cash falls through to the bearish check, which fails, and then to
  the management scan; a bearish crossover appends a new short entry of the same size and
  returns the one open_short action, whatever the cash. The new entry is an object that
  no ledger held.
\<close>

theorem open_entry_on_crossover:
  assumes "df ''close'' = Some close"
    and "enough_history (params s) close"
    and "0 \<le> ma_fast (params s)" and "0 \<le> ma_slow (params s)"
    and "price = close ! (length close - 1)"
    and "0 < price"
  shows "(long_signal rolling (params s) close
          \<and> cash \<ge> fmul account_value (buy_pct (params s))
          \<longrightarrow> process_bar rolling h s df account_value cash =
                Inr ([\<lparr>act_op = ''open_long'', act_side = ''buy'',
                       act_size = fdiv (fmul account_value (buy_pct (params s))) price,
                       act_price = price,
                       act_notional = Some (fmul account_value (buy_pct (params s)))\<rparr>],
                     h(fresh s :=
                         \<lparr>price_e = price,
                          size_e = fdiv (fmul account_value (buy_pct (params s))) price,
                          tp1_done = False\<rparr>),
                     s\<lparr>long_entries := long_entries s @ [fresh s]\<rparr>))
       \<and> (long_signal rolling (params s) close
          \<and> cash < fmul account_value (buy_pct (params s))
          \<longrightarrow> \<not> short_signal rolling (params s) close
              \<and> process_bar rolling h s df account_value cash = manage h s price)
       \<and> (short_signal rolling (params s) close
          \<longrightarrow> process_bar rolling h s df account_value cash =
                Inr ([\<lparr>act_op = ''open_short'', act_side = ''sell'',
                       act_size = fdiv (fmul account_value (buy_pct (params s))) price,
                       act_price = price,
                       act_notional = Some (fmul account_value (buy_pct (params s)))\<rparr>],
                     h(fresh s :=
                         \<lparr>price_e = price,
                          size_e = fdiv (fmul account_value (buy_pct (params s))) price,
                          tp1_done = False\<rparr>),
                     s\<lparr>short_entries := short_entries s @ [fresh s]\<rparr>))
       \<and> fresh s \<notin> set (long_entries s) \<union> set (short_entries s)"
proof -
  have hist: "\<not> int (length close) < max (max (ma_fast (params s)) (ma_slow (params s))) 120 + 1"
    using assms(2) by (simp add: enough_history_def)
  have win: "\<not> (ma_fast (params s) < 0 \<or> ma_slow (params s) < 0)"
    using assms(3,4) by simp
  have pr: "\<not> close ! (length close - 1) \<le> 0" "close ! (length close - 1) \<noteq> 0"
    using assms(5,6) by simp_all
  have excl: "short_signal rolling (params s) close \<Longrightarrow> \<not> long_signal rolling (params s) close"
    using signals_exclusive by blast
  have pb: "process_bar rolling h s df account_value cash =
      (if long_signal rolling (params s) close
          \<and> cash \<ge> fmul account_value (buy_pct (params s)) then
         Inr ([\<lparr>act_op = ''open_long'', act_side = ''buy'',
                act_size = fdiv (fmul account_value (buy_pct (params s))) price,
                act_price = price,
                act_notional = Some (fmul account_value (buy_pct (params s)))\<rparr>],
              h(fresh s :=
                  \<lparr>price_e = price,
                   size_e = fdiv (fmul account_value (buy_pct (params s))) price,
                   tp1_done = False\<rparr>),
              s\<lparr>long_entries := long_entries s @ [fresh s]\<rparr>)
       else if short_signal rolling (params s) close then
         Inr ([\<lparr>act_op = ''open_short'', act_side = ''sell'',
                act_size = fdiv (fmul account_value (buy_pct (params s))) price,
                act_price = price,
                act_notional = Some (fmul account_value (buy_pct (params s)))\<rparr>],
              h(fresh s :=
                  \<lparr>price_e = price,
                   size_e = fdiv (fmul account_value (buy_pct (params s))) price,
                   tp1_done = False\<rparr>),
              s\<lparr>short_entries := short_entries s @ [fresh s]\<rparr>)
       else manage h s price)"
    using hist win pr assms(1,5)
    by (simp add: process_bar_def Let_def truediv_def)
  show ?thesis
    unfolding pb using excl fresh_is_new [of s] by auto
qed

theorem open_entry_on_crossover_witness:
  "process_bar window_mean book (ledger_state [10, 11, 12] [16]) bull_frame 1200 300 =
     Inr ([\<lparr>act_op = ''open_long'', act_side = ''buy'', act_size = 3 / 2,
            act_price = 200, act_notional = Some 300\<rparr>],
          book(17 := \<lparr>price_e = 200, size_e = 3 / 2, tp1_done = False\<rparr>),
          ledger_state [10, 11, 12, 17] [16])
   \<and> process_bar window_mean book (ledger_state [10, 11, 12] [16]) bull_frame 1200 299
       = manage book (ledger_state [10, 11, 12] [16]) 200
   \<and> process_bar window_mean book (ledger_state [10, 11, 12] [16]) bear_frame 1200 0 =
     Inr ([\<lparr>act_op = ''open_short'', act_side = ''sell'', act_size = 10,
            act_price = 30, act_notional = Some 300\<rparr>],
          book(17 := \<lparr>price_e = 30, size_e = 10, tp1_done = False\<rparr>),
          ledger_state [10, 11, 12] [16, 17])"
proof -
  let ?s = "ledger_state [10, 11, 12] [16]"
  have pa: "params ?s = dyadic_params"
    by (simp add: ledger_state_def)
  have fr: "fresh ?s = 17"
    by (simp add: fresh_def ledger_state_def)
  have amt: "fmul 1200 (buy_pct dyadic_params) = 300" "fdiv 300 200 = 3 / 2" "fdiv 300 30 = 10"
    by (simp_all add: dyadic_params_def fmul_def fdiv_def fl_means)
  have bull: "bull_frame ''close'' = Some bull_close" "enough_history dyadic_params bull_close"
    "(200::real) = bull_close ! (length bull_close - 1)"
    by (simp_all add: bull_frame_def enough_history_def dyadic_params_def bull_close_def nth_append)
  have bear: "bear_frame ''close'' = Some bear_close" "enough_history dyadic_params bear_close"
    "(30::real) = bear_close ! (length bear_close - 1)"
    by (simp_all add: bear_frame_def enough_history_def dyadic_params_def bear_close_def nth_append)
  have win: "0 \<le> ma_fast dyadic_params" "0 \<le> ma_slow dyadic_params"
    by (simp_all add: dyadic_params_def)
  have a: "process_bar window_mean book ?s bull_frame 1200 300 =
     Inr ([\<lparr>act_op = ''open_long'', act_side = ''buy'', act_size = 3 / 2,
            act_price = 200, act_notional = Some 300\<rparr>],
          book(17 := \<lparr>price_e = 200, size_e = 3 / 2, tp1_done = False\<rparr>),
          ledger_state [10, 11, 12, 17] [16])"
    using open_entry_on_crossover [where df = bull_frame and close = bull_close and price = 200
        and rolling = window_mean and h = book and s = ?s and account_value = 1200 and cash = 300]
      bull bull_long_signal win
    by (simp add: pa fr amt) (simp add: ledger_state_def)
  have b: "process_bar window_mean book ?s bull_frame 1200 299 = manage book ?s 200"
    using open_entry_on_crossover [where df = bull_frame and close = bull_close and price = 200
        and rolling = window_mean and h = book and s = ?s and account_value = 1200 and cash = 299]
      bull bull_long_signal win
    by (simp add: pa fr amt)
  have c: "process_bar window_mean book ?s bear_frame 1200 0 =
     Inr ([\<lparr>act_op = ''open_short'', act_side = ''sell'', act_size = 10,
            act_price = 30, act_notional = Some 300\<rparr>],
          book(17 := \<lparr>price_e = 30, size_e = 10, tp1_done = False\<rparr>),
          ledger_state [10, 11, 12] [16, 17])"
    using open_entry_on_crossover [where df = bear_frame and close = bear_close and price = 30
        and rolling = window_mean and h = book and s = ?s and account_value = 1200 and cash = 0]
      bear bear_short_signal win
    by (simp add: pa fr amt) (simp add: ledger_state_def)
  from a b c show ?thesis by simp
qed

section \<open>One action, degraded input, totality\<close>

lemma scan_long_zero_price:
  "price_e (h (long_entries s ! i)) = 0 \<Longrightarrow> scan_long h s price (Suc i) = Inl ZeroDivisionError"
  by (simp add: truediv_def)

lemma scan_long_result:
  "scan_long h s price n = Inr (Some r) \<Longrightarrow>
     \<exists>i<n. \<exists>c. first_check (params s) (h (long_entries s ! i))
                     (long_pnl price (h (long_entries s ! i))) = Some c
                 \<and> r = close_long h s price i c"
proof (induction n)
  case 0
  then show ?case by simp
next
  case (Suc n)
  show ?case
  proof (cases "price_e (h (long_entries s ! n)) = 0")
    case True
    from Suc.prems have False
      unfolding scan_long_zero_price [where h = h and s = s and i = n and price = price, OF True] by simp
    then show ?thesis ..
  next
    case False
    note step = scan_long_step [where h = h and s = s and i = n and price = price, OF False]
    show ?thesis
    proof (cases "first_check (params s) (h (long_entries s ! n))
                    (long_pnl price (h (long_entries s ! n)))")
      case None
      from Suc.prems have "scan_long h s price n = Inr (Some r)"
        unfolding step None by simp
      with Suc.IH show ?thesis by (meson less_Suc_eq)
    next
      case (Some c)
      from Suc.prems have "r = close_long h s price n c"
        unfolding step Some by simp
      with Some show ?thesis by blast
    qed
  qed
qed

lemma scan_short_result:
  assumes "price \<noteq> 0"
  shows "scan_short h s price n = Inr (Some r) \<Longrightarrow>
     \<exists>j<n. \<exists>c. first_check (params s) (h (short_entries s ! j))
                     (short_pnl price (h (short_entries s ! j))) = Some c
                 \<and> r = close_short h s price j c"
proof (induction n)
  case 0
  then show ?case by simp
next
  case (Suc n)
  note step = scan_short_step [OF assms, of h s n]
  show ?case
  proof (cases "first_check (params s) (h (short_entries s ! n))
                  (short_pnl price (h (short_entries s ! n)))")
    case None
    from Suc.prems have "scan_short h s price n = Inr (Some r)"
      unfolding step None by simp
    with Suc.IH show ?thesis by (meson less_Suc_eq)
  next
    case (Some c)
    from Suc.prems have "r = close_short h s price n c"
      unfolding step Some by simp
    with Some show ?thesis by blast
  qed
qed

lemma manage_result:
  assumes "price \<noteq> 0" and "manage h s price = Inr r"
  shows "r = ([], h, s)
         \<or> (\<exists>i<length (long_entries s). \<exists>c.
               first_check (params s) (h (long_entries s ! i))
                 (long_pnl price (h (long_entries s ! i))) = Some c
               \<and> r = close_long h s price i c)
         \<or> (\<exists>j<length (short_entries s). \<exists>c.
               first_check (params s) (h (short_entries s ! j))
                 (short_pnl price (h (short_entries s ! j))) = Some c
               \<and> r = close_short h s price j c)"
  using assms(2) scan_long_result [of h s price "length (long_entries s)" r]
    scan_short_result [OF assms(1), of h s "length (short_entries s)" r]
  by (auto simp add: manage_def split: sum.splits option.splits)

lemma length_close_long: "length (fst (close_long h s price i c)) = 1"
  by (cases c) (simp_all add: close_long_def Let_def)

lemma length_close_short: "length (fst (close_short h s price j c)) = 1"
  by (cases c) (simp_all add: close_short_def Let_def)

lemma manage_at_most_one:
  assumes "price \<noteq> 0" and "manage h s price = Inr (acts, h', s')"
  shows "length acts \<le> 1"
  using manage_result [OF assms] length_close_long [of h s price] length_close_short [of h s price]
  by (metis fst_conv le_numeral_extra(4) list.size(3) zero_le)

text \<open>
  Claim C5. Whatever the state, the bars, the equity and the cash: the list returned by
  one call of \<open>process_bar\<close> holds at most one action.
\<close>

theorem at_most_one_action:
  assumes "process_bar rolling h s df account_value cash = Inr (acts, h', s')"
  shows "length acts \<le> 1"
proof (cases "df ''close''")
  case None
  with assms show ?thesis by (simp add: process_bar_def)
next
  case (Some close)
  show ?thesis
  proof (cases "0 < close ! (length close - 1)")
    case False
    with assms Some show ?thesis
      by (auto simp add: process_bar_def Let_def split: if_splits)
  next
    case True
    then have nz: "close ! (length close - 1) \<noteq> 0" by simp
    have "length acts \<le> 1" if "manage h s (close ! (length close - 1)) = Inr (acts, h', s')"
      using manage_at_most_one [OF nz that] .
    with assms Some nz show ?thesis
      by (auto simp add: process_bar_def Let_def truediv_def split: if_splits)
  qed
qed

lemma flat_tp1_run:
  "process_bar window_mean book (ledger_state [10, 11, 12] [13]) flat_frame 1000 1000 =
     Inr ([\<lparr>act_op = ''tp1_long'', act_side = ''sell'', act_size = 1,
            act_price = 100, act_notional = None\<rparr>],
          book(11 := \<lparr>price_e = 50, size_e = 1, tp1_done = True\<rparr>),
          ledger_state [10, 11, 12] [13])"
proof -
  let ?s = "ledger_state [10, 11, 12] [13]"
  have sz: "fmul 2 (1 / 2) = 1" "fsub 2 1 = 1"
    by (simp_all add: fmul_def fsub_def fl_values)
  have "process_bar window_mean book ?s flat_frame 1000 1000 = manage book ?s 100"
    using process_bar_manage [of flat_frame flat_close window_mean ?s 1000 1000 book]
      flat_frame_close flat_reaches_scan [of _ _ 1000 1000]
    by (simp add: flat_close_def)
  also have "\<dots> = Inr (close_long book ?s 100 1 Tp1)"
    using book_checks(1,2)
    by (intro manage_long_hit) (simp_all add: ledger_state_def quiet_long_def, simp_all add: book_def)
  finally show ?thesis
    by (simp add: close_long_def ledger_state_def dyadic_params_def Let_def)
       (simp add: book_def sz)
qed

theorem at_most_one_action_witness:
  "process_bar window_mean book (ledger_state [10, 11, 12] [13]) flat_frame 1000 1000 =
     Inr ([\<lparr>act_op = ''tp1_long'', act_side = ''sell'', act_size = 1,
            act_price = 100, act_notional = None\<rparr>],
          book(11 := \<lparr>price_e = 50, size_e = 1, tp1_done = True\<rparr>),
          ledger_state [10, 11, 12] [13])
   \<and> length [\<lparr>act_op = ''tp1_long'', act_side = ''sell'', act_size = 1,
            act_price = 100, act_notional = None\<rparr>] \<le> 1"
  using at_most_one_action [OF flat_tp1_run] flat_tp1_run by simp

text \<open>
  Claim C8. \<open>process_bar\<close> returns the empty list and leaves the whole state as it was when
  the frame has no close column, or the close series is shorter than
  \<open>max(ma_fast, ma_slow, 120) + 1\<close>, or the current close is not positive (the windows
  being non-negative, so that the rolling means computed before that test are accepted):
  whatever the shape of the bars and whatever the ledgers hold.
\<close>

theorem degraded_input_no_action:
  assumes "df ''close'' = None
     \<or> (df ''close'' = Some close
        \<and> int (length close) < max (max (ma_fast (params s)) (ma_slow (params s))) 120 + 1)
     \<or> (df ''close'' = Some close
        \<and> 0 \<le> ma_fast (params s) \<and> 0 \<le> ma_slow (params s)
        \<and> close ! (length close - 1) \<le> 0)"
  shows "process_bar rolling h s df account_value cash = Inr ([], h, s)"
  using assms by (auto simp add: process_bar_def Let_def)

theorem degraded_input_no_action_witness:
  "process_bar window_mean book (ledger_state [10, 11, 12] [13]) no_close_frame 1000 1000
     = Inr ([], book, ledger_state [10, 11, 12] [13])
   \<and> short_signal window_mean (params (ledger_state [10, 11, 12] [13])) short_bear_close
   \<and> process_bar window_mean book (ledger_state [10, 11, 12] [13])
        [''close'' \<mapsto> short_bear_close] 1000 1000
     = Inr ([], book, ledger_state [10, 11, 12] [13])
   \<and> process_bar window_mean book (ledger_state [10, 11, 12] [13])
        [''close'' \<mapsto> zero_close] 1000 1000
     = Inr ([], book, ledger_state [10, 11, 12] [13])"
proof -
  let ?s = "ledger_state [10, 11, 12] [13]"
  have pa: "params ?s = dyadic_params"
    by (simp add: ledger_state_def)
  have a: "process_bar window_mean book ?s no_close_frame 1000 1000 = Inr ([], book, ?s)"
    using degraded_input_no_action [where df = no_close_frame and s = ?s]
    by (simp add: no_close_frame_def)
  have means: "window_mean short_bear_close 10 119 = Some 94"
    "window_mean short_bear_close 10 118 = Some 101"
    "window_mean short_bear_close 20 119 = Some 97"
    "window_mean short_bear_close 20 118 = Some (201 / 2)"
    "window_mean short_bear_close 120 119 = Some (199 / 2)"
    by (simp_all add: window_mean_def short_bear_close_def fdiv_def sum_list_replicate fl_means)
  have sig: "short_signal window_mean (params ?s) short_bear_close"
    using means
    by (simp add: pa short_signal_def dyadic_params_def Let_def lt_nan_def gt_nan_def)
       (simp add: short_bear_close_def nth_append)
  have b: "process_bar window_mean book ?s [''close'' \<mapsto> short_bear_close] 1000 1000
      = Inr ([], book, ?s)"
    using degraded_input_no_action [where df = "[''close'' \<mapsto> short_bear_close]"
        and close = short_bear_close and s = ?s]
    by (simp add: pa dyadic_params_def short_bear_close_def)
  have c: "process_bar window_mean book ?s [''close'' \<mapsto> zero_close] 1000 1000
      = Inr ([], book, ?s)"
    using degraded_input_no_action [where df = "[''close'' \<mapsto> zero_close]"
        and close = zero_close and s = ?s]
    by (simp add: pa dyadic_params_def zero_close_def nth_append)
  from a sig b c show ?thesis by simp
qed

lemma scan_long_total:
  assumes "\<forall>k<n. price_e (h (long_entries s ! k)) \<noteq> 0"
  shows "\<exists>r. scan_long h s price n = Inr r"
  using assms
proof (induction n)
  case 0
  then show ?case by simp
next
  case (Suc n)
  then have nz: "price_e (h (long_entries s ! n)) \<noteq> 0"
    and ih: "\<exists>r. scan_long h s price n = Inr r"
    by simp_all
  show ?case
    unfolding scan_long_step [where h = h and s = s and i = n and price = price, OF nz]
    using ih by (simp split: option.split)
qed

lemma scan_short_total:
  assumes "price \<noteq> 0"
  shows "\<exists>r. scan_short h s price n = Inr r"
proof (induction n)
  case 0
  then show ?case by simp
next
  case (Suc n)
  show ?case
    unfolding scan_short_step [OF assms] using Suc by (simp split: option.split)
qed

lemma manage_total:
  assumes "\<forall>a\<in>set (long_entries s). price_e (h a) \<noteq> 0" and "price \<noteq> 0"
  shows "\<exists>r. manage h s price = Inr r"
proof -
  have "\<forall>k<length (long_entries s). price_e (h (long_entries s ! k)) \<noteq> 0"
    using assms(1) by simp
  then obtain a where a: "scan_long h s price (length (long_entries s)) = Inr a"
    using scan_long_total by blast
  obtain b where b: "scan_short h s price (length (short_entries s)) = Inr b"
    using scan_short_total [OF assms(2)] by blast
  show ?thesis
    by (simp add: manage_def a b split: option.split)
qed

text \<open>
  Claim C9. When every entry in the ledgers has a positive price, \<open>process_bar\<close> never
  raises ZeroDivisionError, whatever the bars, the equity and the cash: a division is
  reached only with a positive divisor, the close after the test \<open>price \<le> 0\<close> or the
  price of a long entry. With window lengths that the rolling mean accepts (non-negative
  ones) it raises nothing at all and returns a list of actions and a state.
\<close>

theorem process_bar_total:
  assumes "\<forall>a\<in>set (long_entries s) \<union> set (short_entries s). 0 < price_e (h a)"
  shows "process_bar rolling h s df account_value cash \<noteq> Inl ZeroDivisionError
       \<and> (0 \<le> ma_fast (params s) \<and> 0 \<le> ma_slow (params s)
          \<longrightarrow> (\<exists>acts h' s'. process_bar rolling h s df account_value cash = Inr (acts, h', s')))"
proof (cases "df ''close''")
  case None
  then show ?thesis by (simp add: process_bar_def)
next
  case (Some close)
  have nz: "\<forall>a\<in>set (long_entries s). price_e (h a) \<noteq> 0"
  proof
    fix a assume "a \<in> set (long_entries s)"
    with assms have "0 < price_e (h a)" by blast
    then show "price_e (h a) \<noteq> 0" by simp
  qed
  have m: "\<exists>r. manage h s (close ! (length close - 1)) = Inr r"
    if "\<not> close ! (length close - 1) \<le> 0"
    using that by (intro manage_total [OF nz]) simp
  show ?thesis
    using m by (auto simp add: process_bar_def Some Let_def truediv_def)
qed

theorem process_bar_total_witness:
  "(\<exists>acts h' s'. process_bar window_mean book (ledger_state [11, 12] [13]) flat_frame 1000 1000
       = Inr (acts, h', s'))
   \<and> process_bar window_mean book (ledger_state [11, 12] [13]) flat_frame 1000 1000
       \<noteq> Inl ZeroDivisionError"
  using process_bar_total [of "ledger_state [11, 12] [13]" book window_mean flat_frame 1000 1000]
  by (simp add: ledger_state_def dyadic_params_def) (simp add: book_def)

section \<open>Sizes of the entries\<close>












section \<open>Malformed snapshots\<close>

lemma map_of_without:
  "map_of (without k kw) k' = (if k' = k then None else map_of kw k')"
  by (induction kw) (auto simp add: without_def)

lemma get_without:
  "get (without k kw) k' d = (if k' = k then d else get kw k' d)"
  by (simp add: get_def map_of_without)

lemma make_params_error: "make_params x = Inl e \<Longrightarrow> e = TypeError"
  by (auto simp add: make_params_def split: json.splits if_splits)

lemma make_entry_error: "make_entry x = Inl e \<Longrightarrow> e = TypeError"
  by (auto simp add: make_entry_def split: json.splits if_splits option.splits)

lemma make_entries_error: "make_entries xs = Inl e \<Longrightarrow> e = TypeError"
proof (induction xs)
  case Nil
  then show ?case by simp
next
  case (Cons x xs)
  then show ?case
    by (auto split: sum.splits dest: make_entry_error)
qed

lemma entries_of_error: "entries_of v = Inl e \<Longrightarrow> e = TypeError"
  by (auto simp add: entries_of_def split: json.splits if_splits dest: make_entries_error)

lemma make_entry_incomplete:
  "map_of kw ''price'' = None \<or> map_of kw ''size'' = None \<Longrightarrow> make_entry (JObj kw) = Inl TypeError"
  by (auto simp add: make_entry_def split: option.splits)

lemma make_entries_incomplete:
  assumes "x \<in> set xs" and "make_entry x = Inl TypeError"
  shows "make_entries xs = Inl TypeError"
  using assms
proof (induction xs)
  case Nil
  then show ?case by simp
next
  case (Cons y ys)
  show ?case
  proof (cases "make_entry y")
    case (Inl e)
    then show ?thesis using make_entry_error [OF Inl] by simp
  next
    case (Inr oe)
    with Cons have "make_entries ys = Inl TypeError" by auto
    with Inr show ?thesis by simp
  qed
qed

lemma from_json_raises_TypeError:
  assumes "entries_of (get members ''long_entries'' (JArr [])) = Inl TypeError
           \<or> entries_of (get members ''short_entries'' (JArr [])) = Inl TypeError"
  shows "from_json (JObj members) = Raises TypeError"
  using assms
  by (auto simp add: from_json_def split: sum.splits
      dest: make_params_error entries_of_error)

lemma make_params_empty: "make_params (JObj []) = Inr (Some default_params)"
  by (simp add: make_params_def field_def default_params_def)

lemma entries_of_empty: "entries_of (JArr []) = Inr (Some [])"
  by (simp add: entries_of_def)

lemma from_json_Restored:
  "from_json (JObj members) = Restored s \<longleftrightarrow>
     make_params (get members ''params'' (JObj [])) = Inr (Some (params s))
     \<and> entries_of (get members ''long_entries'' (JArr [])) = Inr (Some (long_entries s))
     \<and> entries_of (get members ''short_entries'' (JArr [])) = Inr (Some (short_entries s))
     \<and> as_int (get members ''completed_long_trades'' (JInt 0)) = Some (completed_long_trades s)
     \<and> as_int (get members ''completed_short_trades'' (JInt 0)) = Some (completed_short_trades s)"
  by (cases s) (auto simp add: from_json_def split: sum.splits option.splits Option.bind_splits)

text \<open>
  Claim C10, as amended. \<open>from_json\<close> raises AttributeError on a snapshot that is not an
  object, and TypeError when an entry of either ledger lacks its price or its size. It does
  not raise for missing params, ledgers or counters: a snapshot that is restored is still
  restored when one of these members is removed, with the default params, an empty ledger
  or a counter of 0 in its place.
\<close>

theorem from_json_errors_and_defaults:
  "((\<forall>members. raw \<noteq> JObj members) \<longrightarrow> from_json raw = Raises AttributeError)
   \<and> ((get members ''long_entries'' (JArr []) = JArr xs \<or> get members ''short_entries'' (JArr []) = JArr xs)
        \<and> JObj kw \<in> set xs \<and> (map_of kw ''price'' = None \<or> map_of kw ''size'' = None)
      \<longrightarrow> from_json (JObj members) = Raises TypeError)
   \<and> (from_json (JObj members) = Restored s
      \<longrightarrow> from_json (JObj (without ''params'' members)) = Restored (s\<lparr>params := default_params\<rparr>)
        \<and> from_json (JObj (without ''long_entries'' members)) = Restored (s\<lparr>long_entries := []\<rparr>)
        \<and> from_json (JObj (without ''short_entries'' members)) = Restored (s\<lparr>short_entries := []\<rparr>)
        \<and> from_json (JObj (without ''completed_long_trades'' members))
            = Restored (s\<lparr>completed_long_trades := 0\<rparr>)
        \<and> from_json (JObj (without ''completed_short_trades'' members))
            = Restored (s\<lparr>completed_short_trades := 0\<rparr>))"
proof (intro conjI impI)
  assume "\<forall>members. raw \<noteq> JObj members"
  then show "from_json raw = Raises AttributeError"
    by (cases raw) (simp_all add: from_json_def)
next
  assume a: "(get members ''long_entries'' (JArr []) = JArr xs
        \<or> get members ''short_entries'' (JArr []) = JArr xs)
      \<and> JObj kw \<in> set xs \<and> (map_of kw ''price'' = None \<or> map_of kw ''size'' = None)"
  then have "make_entries xs = Inl TypeError"
    using make_entries_incomplete [of "JObj kw" xs] make_entry_incomplete [of kw] by blast
  then have "entries_of (JArr xs) = Inl TypeError"
    by (simp add: entries_of_def)
  with a show "from_json (JObj members) = Raises TypeError"
    by (intro from_json_raises_TypeError) auto
next
  assume r: "from_json (JObj members) = Restored s"
  note parts = r [unfolded from_json_Restored]
  show "from_json (JObj (without ''params'' members)) = Restored (s\<lparr>params := default_params\<rparr>)"
    using parts by (simp add: from_json_Restored get_without make_params_empty)
  show "from_json (JObj (without ''long_entries'' members)) = Restored (s\<lparr>long_entries := []\<rparr>)"
    using parts by (simp add: from_json_Restored get_without entries_of_empty)
  show "from_json (JObj (without ''short_entries'' members)) = Restored (s\<lparr>short_entries := []\<rparr>)"
    using parts by (simp add: from_json_Restored get_without entries_of_empty)
  show "from_json (JObj (without ''completed_long_trades'' members))
      = Restored (s\<lparr>completed_long_trades := 0\<rparr>)"
    using parts by (simp add: from_json_Restored get_without as_int_def)
  show "from_json (JObj (without ''completed_short_trades'' members))
      = Restored (s\<lparr>completed_short_trades := 0\<rparr>)"
    using parts by (simp add: from_json_Restored get_without as_int_def)
qed

theorem from_json_errors_and_defaults_witness:
  "from_json (JArr []) = Raises AttributeError
   \<and> from_json (JObj priceless_snapshot) = Raises TypeError
   \<and> from_json (JObj (without ''params'' (without ''completed_long_trades''
        [(''params'', params_dict (default_params\<lparr>ma_fast := 5\<rparr>)),
         (''completed_long_trades'', JInt 3)])))
      = Restored empty_state"
proof -
  have a: "from_json (JArr []) = Raises AttributeError"
    using from_json_errors_and_defaults [where raw = "JArr []"] by simp
  have b: "from_json (JObj priceless_snapshot) = Raises TypeError"
    using from_json_errors_and_defaults [where members = priceless_snapshot
        and xs = "[JObj [(''size'', JFloat 1), (''tp1_done'', JBool False)]]"
        and kw = "[(''size'', JFloat 1), (''tp1_done'', JBool False)]"]
    by (simp add: priceless_snapshot_def get_def)
  let ?m = "[(''params'', params_dict (default_params\<lparr>ma_fast := 5\<rparr>)),
         (''completed_long_trades'', JInt 3)]"
  let ?s = "\<lparr>params = default_params\<lparr>ma_fast := 5\<rparr>, long_entries = [], short_entries = [],
     completed_long_trades = 3, completed_short_trades = 0\<rparr>"
  have r: "from_json (JObj ?m) = Restored ?s"
    by (simp add: from_json_Restored get_def make_params_dict entries_of_def as_int_def)
  have r': "from_json (JObj (without ''completed_long_trades'' ?m))
      = Restored (?s\<lparr>completed_long_trades := 0\<rparr>)"
    using from_json_errors_and_defaults [where members = ?m and s = ?s] r by blast
  have c: "from_json (JObj (without ''params'' (without ''completed_long_trades'' ?m)))
      = Restored empty_state"
    using from_json_errors_and_defaults [where members = "without ''completed_long_trades'' ?m"
        and s = "?s\<lparr>completed_long_trades := 0\<rparr>"] r'
    by (simp add: empty_state_def)
  from a b c show ?thesis by simp
qed

text \<open>
  Claim C10 as stated fails: the empty object has no params, no ledgers and no counters,
  and \<open>from_json\<close> restores it without an error, as the state of all defaults (the
  doubles that the literals 0.15, 0.08, 0.14, 0.18 and 0.9 denote).
\<close>

theorem from_json_defaults_silently:
  "from_json (JObj []) = Restored
     \<lparr>params = \<lparr>ma_fast = 10, ma_slow = 20, buy_pct = fl 0.15, tp1_pct = fl 0.08,
                tp2_pct = fl 0.14, sl_pct = fl 0.18, tp1_sell_prop = fl 0.9\<rparr>,
      long_entries = [], short_entries = [],
      completed_long_trades = 0, completed_short_trades = 0\<rparr>"
  by (simp add: from_json_def get_def make_params_empty entries_of_empty as_int_def
      default_params_def)

end
